theory Spec2Isabelle
  imports Main
begin

section \<open>Values shared by the components\<close>

text \<open>
  A thrown JavaScript error: the constructor that made it and its message.
\<close>

datatype js_error = Error string | TypeError string | SyntaxError string | RangeError string

text \<open>
  A \<^verbatim>\<open>DynamicStructuredTool\<close>. The code under study reads only \<^verbatim>\<open>tool.name\<close>; the
  description is kept so that two tools of one name can be told apart, the schema and the
  handler are never inspected and are left out.
\<close>

record tool =
  tool_name :: string
  tool_description :: string

text \<open>\<^verbatim>\<open>SkillMetadata\<close> of skills/types.ts.\<close>

record skill_metadata =
  md_name :: string
  md_description :: string
  md_version :: "string option"
  md_author :: "string option"
  md_tags :: "string list option"

text \<open>
  What awaiting \<^verbatim>\<open>skill.initialize()\<close> does: the promise resolves, or it rejects and
  the \<^verbatim>\<open>await\<close> throws.
\<close>

datatype hook_outcome = Resolves | Rejects js_error

text \<open>
  \<^verbatim>\<open>Skill\<close> of skills/types.ts. The optional \<^verbatim>\<open>initialize\<close> hook is absent
  (\<open>None\<close>) or present with its outcome; \<^verbatim>\<open>cleanup\<close> is never called by the code
  and is left out.
\<close>

record skill =
  metadata :: skill_metadata
  skill_tools :: "tool list"
  skill_initialize :: "hook_outcome option"

section \<open>JavaScript \<^verbatim>\<open>Map\<close> and \<^verbatim>\<open>Set\<close>\<close>

text \<open>
  A \<^verbatim>\<open>Map\<close> is an association list in insertion order: \<^verbatim>\<open>set\<close> on a key that is
  present replaces the value where it stands, on a new key it appends. A \<^verbatim>\<open>Set\<close> is
  the list of its members in insertion order; \<^verbatim>\<open>add\<close> of a member changes nothing.
\<close>

fun Map_set :: "'k \<Rightarrow> 'v \<Rightarrow> ('k \<times> 'v) list \<Rightarrow> ('k \<times> 'v) list" where
  "Map_set k v [] = [(k, v)]"
| "Map_set k v ((k', v') # m) = (if k' = k then (k', v) # m else (k', v') # Map_set k v m)"

definition Map_get :: "('k \<times> 'v) list \<Rightarrow> 'k \<Rightarrow> 'v option" where
  "Map_get m k = map_of m k"

definition Map_keys :: "('k \<times> 'v) list \<Rightarrow> 'k list" where
  "Map_keys m = map fst m"

definition Map_values :: "('k \<times> 'v) list \<Rightarrow> 'v list" where
  "Map_values m = map snd m"

definition Set_has :: "'a list \<Rightarrow> 'a \<Rightarrow> bool" where
  "Set_has s x = (x \<in> set s)"

definition Set_add :: "'a \<Rightarrow> 'a list \<Rightarrow> 'a list" where
  "Set_add x s = (if Set_has s x then s else s @ [x])"

section \<open>SkillsRegistry (skills/registry.ts)\<close>

record skills_registry =
  skills :: "(string \<times> skill) list"
  initialized :: "string list"
  loadedSkills :: "string list"

definition SkillsRegistry_new :: skills_registry where
  "SkillsRegistry_new = \<lparr>skills = [], initialized = [], loadedSkills = []\<rparr>"

definition register :: "skills_registry \<Rightarrow> skill \<Rightarrow> skills_registry" where
  "register r sk = r\<lparr>skills := Map_set (md_name (metadata sk)) sk (skills r)\<rparr>"

fun registerAll :: "skills_registry \<Rightarrow> skill list \<Rightarrow> skills_registry" where
  "registerAll r [] = r"
| "registerAll r (sk # sks) = registerAll (register r sk) sks"

definition get :: "skills_registry \<Rightarrow> string \<Rightarrow> skill option" where
  "get r name = Map_get (skills r) name"

definition getNames :: "skills_registry \<Rightarrow> string list" where
  "getNames r = Map_keys (skills r)"

definition getAllMetadata :: "skills_registry \<Rightarrow> skill_metadata list" where
  "getAllMetadata r = map metadata (Map_values (skills r))"

text \<open>
  \<^verbatim>\<open>loadSkill\<close> returns \<^verbatim>\<open>null\<close> (\<open>None\<close>) or \<^verbatim>\<open>{ tools }\<close>, and the registry
  after the call.
\<close>

definition loadSkill :: "skills_registry \<Rightarrow> string \<Rightarrow> tool list option \<times> skills_registry" where
  "loadSkill r name =
     (case Map_get (skills r) name of
        None \<Rightarrow> (None, r)
      | Some sk \<Rightarrow>
          if Set_has (loadedSkills r) name then (None, r)
          else (Some (skill_tools sk), r\<lparr>loadedSkills := Set_add name (loadedSkills r)\<rparr>))"

definition isSkillLoaded :: "skills_registry \<Rightarrow> string \<Rightarrow> bool" where
  "isSkillLoaded r name = Set_has (loadedSkills r) name"

definition getLoadedSkillNames :: "skills_registry \<Rightarrow> string list" where
  "getLoadedSkillNames r = loadedSkills r"

text \<open>
  \<^verbatim>\<open>initializeSkill\<close> throws when the name is unknown or when the hook rejects; in both
  cases nothing has been written yet.
\<close>

definition initializeSkill :: "skills_registry \<Rightarrow> string \<Rightarrow> (js_error + unit) \<times> skills_registry" where
  \<open>initializeSkill r name =
     (case Map_get (skills r) name of
        None \<Rightarrow> (Inl (Error (''Skill "'' @ name @ ''" not found'')), r)
      | Some sk \<Rightarrow>
          if Set_has (initialized r) name then (Inr (), r)
          else (case skill_initialize sk of
                  Some (Rejects e) \<Rightarrow> (Inl e, r)
                | _ \<Rightarrow> (Inr (), r\<lparr>initialized := Set_add name (initialized r)\<rparr>)))\<close>

text \<open>
  The loop of \<^verbatim>\<open>initializeAll\<close> over the keys: the first throw leaves the loop, with
  the skills initialised so far kept.
\<close>

fun initializeEach :: "skills_registry \<Rightarrow> string list \<Rightarrow> (js_error + unit) \<times> skills_registry" where
  "initializeEach r [] = (Inr (), r)"
| "initializeEach r (name # names) =
     (case initializeSkill r name of
        (Inl e, r') \<Rightarrow> (Inl e, r')
      | (Inr u, r') \<Rightarrow> initializeEach r' names)"

definition initializeAll :: "skills_registry \<Rightarrow> (js_error + unit) \<times> skills_registry" where
  "initializeAll r = initializeEach r (Map_keys (skills r))"

definition resetLoadedSkills :: "skills_registry \<Rightarrow> skills_registry" where
  "resetLoadedSkills r = r\<lparr>loadedSkills := []\<rparr>"

text \<open>The invariant of the data model: both name sets lie within the registered names.\<close>

definition registered :: "skills_registry \<Rightarrow> string set" where
  "registered r = set (Map_keys (skills r))"

definition registry_inv :: "skills_registry \<Rightarrow> bool" where
  "registry_inv r \<longleftrightarrow>
     set (initialized r) \<subseteq> registered r \<and> set (loadedSkills r) \<subseteq> registered r"

text \<open>
  What one registry operation may do to the three sets, from the state \<open>r\<close> before to the
  state \<open>r'\<close> after: no registered name is lost, and a name that is new in
  \<open>initialized\<close> or in \<open>loadedSkills\<close> is a key of the map.
\<close>

definition registry_step :: "skills_registry \<Rightarrow> skills_registry \<Rightarrow> bool" where
  "registry_step r r' \<longleftrightarrow>
     registered r \<subseteq> registered r'
     \<and> set (initialized r') \<subseteq> set (initialized r) \<union> registered r'
     \<and> set (loadedSkills r') \<subseteq> set (loadedSkills r) \<union> registered r'"

section \<open>JSON values and \<^verbatim>\<open>JSON.parse\<close>\<close>

text \<open>
  A decoded JSON value. A number is the decimal \<open>m \<times> 10\<^sup>e\<close> of its literal, an object the
  list of its properties with distinct keys.
\<close>

datatype json =
    JNull
  | JBool bool
  | JNumber int int
  | JString string
  | JArray "json list"
  | JObject "(string \<times> json) list"

text \<open>
  The functions of the router take the runtime's \<^verbatim>\<open>JSON.parse\<close> as a parameter of this
  type: it returns the value or throws.
\<close>

type_synonym json_parser = "string \<Rightarrow> js_error + json"

text \<open>
  JavaScript truthiness of a decoded value, as \<^verbatim>\<open>||\<close> tests it: \<^verbatim>\<open>null\<close>,
  \<^verbatim>\<open>false\<close>, zero and the empty string are falsy, every array and object is truthy.
\<close>

fun truthy :: "json \<Rightarrow> bool" where
  "truthy JNull = False"
| "truthy (JBool b) = b"
| "truthy (JNumber m e) = (m \<noteq> 0)"
| "truthy (JString s) = (s \<noteq> [])"
| "truthy (JArray xs) = True"
| "truthy (JObject kvs) = True"

text \<open>
  \<^verbatim>\<open>v || d\<close> where \<open>v\<close> is the result of a property read: \<open>None\<close> is
  \<^verbatim>\<open>undefined\<close>.
\<close>

definition or_default :: "json option \<Rightarrow> json \<Rightarrow> json" where
  "or_default v d = (case v of None \<Rightarrow> d | Some x \<Rightarrow> if truthy x then x else d)"

text \<open>
  Reading the property \<open>key\<close> (here \<^verbatim>\<open>skills\<close> or \<^verbatim>\<open>reasoning\<close>) of a decoded
  value: \<^verbatim>\<open>null\<close> throws, an object gives its property or \<^verbatim>\<open>undefined\<close>, and
  neither name is a property of a boolean, number, string or array.
\<close>

definition get_property :: "json \<Rightarrow> string \<Rightarrow> js_error + json option" where
  "get_property v key =
     (case v of
        JNull \<Rightarrow> Inl (TypeError ''Cannot read properties of null'')
      | JObject kvs \<Rightarrow> Inr (Map_get kvs key)
      | _ \<Rightarrow> Inr None)"

subsection \<open>A decoder for JSON text\<close>

text \<open>
  A recursive-descent decoder of the JSON grammar over 8-bit characters, standing for
  \<^verbatim>\<open>JSON.parse\<close> where a concrete text is decoded. The nesting is bounded by fuel, and
  running out of it is the runtime's \<^verbatim>\<open>RangeError\<close>. An escape \<^verbatim>\<open>\uXXXX\<close> of a code
  unit that does not fit a character is outside this model and ends the same way.
\<close>

definition json_syntax_error :: js_error where
  "json_syntax_error = SyntaxError ''Unexpected token in JSON''"

definition json_range_error :: js_error where
  "json_range_error = RangeError ''Maximum call stack size exceeded''"

definition is_ws :: "char \<Rightarrow> bool" where
  "is_ws c \<longleftrightarrow> c = CHR '' '' \<or> c = CHR 0x09 \<or> c = CHR 0x0A \<or> c = CHR 0x0D"

fun skip_ws :: "string \<Rightarrow> string" where
  "skip_ws [] = []"
| "skip_ws (c # cs) = (if is_ws c then skip_ws cs else c # cs)"

definition is_digit :: "char \<Rightarrow> bool" where
  "is_digit c \<longleftrightarrow> c \<in> set ''0123456789''"

definition digit_val :: "char \<Rightarrow> nat" where
  "digit_val c = of_char c - 48"

definition digits_val :: "string \<Rightarrow> nat" where
  "digits_val ds = foldl (\<lambda>acc d. 10 * acc + digit_val d) 0 ds"

definition hex_val :: "char \<Rightarrow> nat option" where
  "hex_val c =
     (if is_digit c then Some (digit_val c)
      else if c \<in> set ''abcdef'' then Some (of_char c - 87)
      else if c \<in> set ''ABCDEF'' then Some (of_char c - 55)
      else None)"

definition escape_char :: "char \<Rightarrow> char option" where
  \<open>escape_char c =
     (if c = CHR 0x22 then Some (CHR 0x22)
      else if c = CHR 0x5C then Some (CHR 0x5C)
      else if c = CHR ''/'' then Some (CHR ''/'')
      else if c = CHR ''b'' then Some (CHR 0x08)
      else if c = CHR ''f'' then Some (CHR 0x0C)
      else if c = CHR ''n'' then Some (CHR 0x0A)
      else if c = CHR ''r'' then Some (CHR 0x0D)
      else if c = CHR ''t'' then Some (CHR 0x09)
      else None)\<close>

text \<open>
  The characters of a string literal after its opening quote, up to the closing one:
  the decoded string and the text that follows.
\<close>

fun parse_string :: "string \<Rightarrow> string \<Rightarrow> js_error + string \<times> string" where
  "parse_string acc [] = Inl json_syntax_error"
| "parse_string acc (c # cs) =
     (if c = CHR 0x22 then Inr (acc, cs)
      else if (of_char c :: nat) < 32 then Inl json_syntax_error
      else if c = CHR 0x5C then
        (case cs of
           [] \<Rightarrow> Inl json_syntax_error
         | e # es \<Rightarrow>
             if e = CHR ''u'' then
               (case es of
                  h1 # h2 # h3 # h4 # rest \<Rightarrow>
                    (case (hex_val h1, hex_val h2, hex_val h3, hex_val h4) of
                       (Some a, Some b, Some c', Some d) \<Rightarrow>
                         if a = 0 \<and> b = 0
                         then parse_string (acc @ [char_of (16 * c' + d)]) rest
                         else Inl json_range_error
                     | _ \<Rightarrow> Inl json_syntax_error)
                | _ \<Rightarrow> Inl json_syntax_error)
             else
               (case escape_char e of
                  None \<Rightarrow> Inl json_syntax_error
                | Some x \<Rightarrow> parse_string (acc @ [x]) es))
      else parse_string (acc @ [c]) cs)"

text \<open>
  A number literal: sign, integer part without a leading zero, fraction, exponent.
\<close>

definition parse_number :: "string \<Rightarrow> js_error + json \<times> string" where
  "parse_number s =
     (let (neg, s1) = (case s of c # cs \<Rightarrow> if c = CHR ''-'' then (True, cs) else (False, s)
                                | [] \<Rightarrow> (False, s));
          ip = (case s1 of c # cs \<Rightarrow> if c = CHR ''0'' then [c] else takeWhile is_digit s1
                          | [] \<Rightarrow> []);
          s2 = drop (length ip) s1;
          (fp, s3) = (case s2 of c # cs \<Rightarrow>
                          if c = CHR ''.'' then (Some (takeWhile is_digit cs), dropWhile is_digit cs)
                          else (None, s2)
                      | [] \<Rightarrow> (None, s2));
          (ex, s4) = (case s3 of c # cs \<Rightarrow>
                          if c = CHR ''e'' \<or> c = CHR ''E'' then
                            (let (eneg, cs1) = (case cs of d # ds \<Rightarrow>
                                                  if d = CHR ''-'' then (True, ds)
                                                  else if d = CHR ''+'' then (False, ds)
                                                  else (False, cs)
                                                | [] \<Rightarrow> (False, cs))
                             in (Some (eneg, takeWhile is_digit cs1), dropWhile is_digit cs1))
                          else (None, s3)
                      | [] \<Rightarrow> (None, s3))
      in if ip = [] \<or> fp = Some [] \<or> (case ex of Some (eneg, ds) \<Rightarrow> ds = [] | None \<Rightarrow> False)
         then Inl json_syntax_error
         else
           (let frac = (case fp of Some ds \<Rightarrow> ds | None \<Rightarrow> []);
                m = int (digits_val (ip @ frac));
                e = (case ex of Some (eneg, ds) \<Rightarrow>
                       if eneg then - int (digits_val ds) else int (digits_val ds)
                     | None \<Rightarrow> 0)
            in Inr (JNumber (if neg then - m else m) (e - int (length frac)), s4)))"

definition parse_literal :: "string \<Rightarrow> json \<Rightarrow> string \<Rightarrow> js_error + json \<times> string" where
  "parse_literal word v s =
     (if take (length word) s = word then Inr (v, drop (length word) s)
      else Inl json_syntax_error)"

fun parse_value :: "nat \<Rightarrow> string \<Rightarrow> js_error + json \<times> string"
  and parse_array :: "nat \<Rightarrow> json list \<Rightarrow> string \<Rightarrow> js_error + json \<times> string"
  and parse_object :: "nat \<Rightarrow> (string \<times> json) list \<Rightarrow> string \<Rightarrow> js_error + json \<times> string"
where
  "parse_value 0 s = Inl json_range_error"
| "parse_value (Suc n) s =
     (case skip_ws s of
        [] \<Rightarrow> Inl json_syntax_error
      | c # cs \<Rightarrow>
          if c = CHR ''{'' then
            (case skip_ws cs of
               [] \<Rightarrow> Inl json_syntax_error
             | d # ds \<Rightarrow> if d = CHR ''}'' then Inr (JObject [], ds) else parse_object n [] (d # ds))
          else if c = CHR ''['' then
            (case skip_ws cs of
               [] \<Rightarrow> Inl json_syntax_error
             | d # ds \<Rightarrow> if d = CHR '']'' then Inr (JArray [], ds) else parse_array n [] (d # ds))
          else if c = CHR 0x22 then
            (case parse_string [] cs of
               Inl e \<Rightarrow> Inl e
             | Inr (str, rest) \<Rightarrow> Inr (JString str, rest))
          else if c = CHR ''t'' then parse_literal ''true'' (JBool True) (c # cs)
          else if c = CHR ''f'' then parse_literal ''false'' (JBool False) (c # cs)
          else if c = CHR ''n'' then parse_literal ''null'' JNull (c # cs)
          else parse_number (c # cs))"
| "parse_array 0 acc s = Inl json_range_error"
| "parse_array (Suc n) acc s =
     (case parse_value n s of
        Inl e \<Rightarrow> Inl e
      | Inr (v, rest) \<Rightarrow>
          (case skip_ws rest of
             [] \<Rightarrow> Inl json_syntax_error
           | c # cs \<Rightarrow>
               if c = CHR '','' then parse_array n (acc @ [v]) cs
               else if c = CHR '']'' then Inr (JArray (acc @ [v]), cs)
               else Inl json_syntax_error))"
| "parse_object 0 acc s = Inl json_range_error"
| "parse_object (Suc n) acc s =
     (case skip_ws s of
        [] \<Rightarrow> Inl json_syntax_error
      | q # qs \<Rightarrow>
          if q \<noteq> CHR 0x22 then Inl json_syntax_error
          else
            (case parse_string [] qs of
               Inl e \<Rightarrow> Inl e
             | Inr (key, rest) \<Rightarrow>
                 (case skip_ws rest of
                    [] \<Rightarrow> Inl json_syntax_error
                  | c # cs \<Rightarrow>
                      if c \<noteq> CHR '':'' then Inl json_syntax_error
                      else
                        (case parse_value n cs of
                           Inl e \<Rightarrow> Inl e
                         | Inr (v, rest') \<Rightarrow>
                             (case skip_ws rest' of
                                [] \<Rightarrow> Inl json_syntax_error
                              | d # ds \<Rightarrow>
                                  if d = CHR '','' then parse_object n (Map_set key v acc) ds
                                  else if d = CHR ''}'' then Inr (JObject (Map_set key v acc), ds)
                                  else Inl json_syntax_error)))))"

definition JSON_parse :: json_parser where
  "JSON_parse s =
     (case parse_value (Suc (Suc (length s + length s))) s of
        Inl e \<Rightarrow> Inl e
      | Inr (v, rest) \<Rightarrow> if skip_ws rest = [] then Inr v else Inl json_syntax_error)"

section \<open>MainAgent (agent/main-agent.ts)\<close>

text \<open>
  Messages of \<^verbatim>\<open>@langchain/core/messages\<close>. The content of a message is a string or
  an array of content blocks; a block is a string, an object with a string \<^verbatim>\<open>text\<close>,
  or anything else.
\<close>

datatype content_block = BlockString string | BlockText string | BlockOther

datatype message_content = ContentString string | ContentArray "content_block list"

datatype message =
    SystemMessage message_content
  | HumanMessage message_content
  | AIMessage message_content
  | ToolMessage message_content

fun message_content_of :: "message \<Rightarrow> message_content" where
  "message_content_of (SystemMessage c) = c"
| "message_content_of (HumanMessage c) = c"
| "message_content_of (AIMessage c) = c"
| "message_content_of (ToolMessage c) = c"

text \<open>
  The \<^verbatim>\<open>ReactAgent\<close> that \<^verbatim>\<open>createAgent({ model, tools })\<close> returns: the executable
  context, bound to the tools it was created with. Every call of \<^verbatim>\<open>createAgent\<close>
  returns a new object; \<open>agent_id\<close> is the identity of the object, the number of agents
  that the main agent had created before this one.
\<close>

record react_agent =
  agent_tools :: "tool list"
  agent_id :: nat

definition createAgent :: "tool list \<Rightarrow> nat \<Rightarrow> react_agent" where
  "createAgent ts n = \<lparr>agent_tools = ts, agent_id = n\<rparr>"

text \<open>
  \<^verbatim>\<open>agent.invoke({ messages })\<close> is the language model at work: it returns the messages
  of the resulting agent state or throws. A state without messages is the empty list, as
  \<^verbatim>\<open>result.messages || []\<close> reads it. The model is a parameter of \<open>MainAgent_run\<close>.
\<close>

type_synonym agent_invoke = "react_agent \<Rightarrow> message list \<Rightarrow> js_error + message list"

text \<open>
  The fields of the class, and \<open>created\<close>: the number of \<^verbatim>\<open>createAgent\<close> calls that
  this main agent has made so far, which is what tells a rebuilt agent from the one it
  replaces.
\<close>

record main_agent =
  agent :: "react_agent option"
  chatHistory :: "message list"
  tools :: "tool list"
  created :: nat

definition SYSTEM_PROMPT :: string where
  "SYSTEM_PROMPT =
     ''You are a helpful AI assistant with access to various skills.'' @ [CHR 0x0A] @
     ''Use the tools available to you to help answer questions and complete tasks.'' @ [CHR 0x0A] @
     ''Always be helpful, accurate, and funny in your responses.''"

definition MainAgent_new :: main_agent where
  "MainAgent_new = \<lparr>agent = None, chatHistory = [], tools = [], created = 0\<rparr>"

text \<open>
  \<^verbatim>\<open>buildExecutor(newTools?)\<close>: \<open>None\<close> is the omitted argument. The merge runs
  only when \<^verbatim>\<open>newTools?.length\<close> is truthy, the agent is created in every case. The
  chat model that \<^verbatim>\<open>getModel()\<close> caches plays no part in the tool set and is left out.
\<close>

definition buildExecutor :: "main_agent \<Rightarrow> tool list option \<Rightarrow> main_agent" where
  "buildExecutor a newTools =
     (let a' =
        (case newTools of
           None \<Rightarrow> a
         | Some nt \<Rightarrow>
             if length nt = 0 then a
             else
               (let newToolsName = map tool_name nt;
                    existingToolsName = map tool_name (tools a);
                    duplicateToolsName = filter (\<lambda>name. name \<in> set existingToolsName) newToolsName
                in a\<lparr>tools := tools a @ filter (\<lambda>t. tool_name t \<notin> set duplicateToolsName) nt\<rparr>))
      in a'\<lparr>agent := Some (createAgent (tools a') (created a')), created := Suc (created a')\<rparr>)"

definition MainAgent_initialize :: "main_agent \<Rightarrow> main_agent" where
  "MainAgent_initialize a = buildExecutor (a\<lparr>tools := []\<rparr>) (Some [])"

text \<open>
  The text of one content block, as the \<^verbatim>\<open>map\<close> callback of \<^verbatim>\<open>run\<close> computes it.
\<close>

fun block_text :: "content_block \<Rightarrow> string" where
  "block_text (BlockString s) = s"
| "block_text (BlockText s) = s"
| "block_text BlockOther = []"

text \<open>
  The output that \<^verbatim>\<open>run\<close> extracts from \<^verbatim>\<open>result.messages\<close>: the last message is
  \<^verbatim>\<open>undefined\<close> when there is none; an \<^verbatim>\<open>AIMessage\<close> gives its string or the
  joined text of its blocks, any other message its content when that is a string.
\<close>

definition extract_output :: "message list \<Rightarrow> string" where
  "extract_output resultMessages =
     (if resultMessages = [] then []
      else
        (case last resultMessages of
           AIMessage content \<Rightarrow>
             (case content of
                ContentString s \<Rightarrow> s
              | ContentArray blocks \<Rightarrow> concat (map block_text blocks))
         | lastMessage \<Rightarrow>
             (case message_content_of lastMessage of
                ContentString s \<Rightarrow> s
              | ContentArray blocks \<Rightarrow> [])))"

text \<open>
  \<^verbatim>\<open>run(input)\<close>: the value returned or the error thrown, and the agent after the call.
\<close>

definition MainAgent_run ::
  "agent_invoke \<Rightarrow> main_agent \<Rightarrow> string \<Rightarrow> (js_error + string) \<times> main_agent" where
  "MainAgent_run invoke a input =
     (case agent a of
        None \<Rightarrow> (Inl (Error ''Agent not initialized. Call initialize() first.''), a)
      | Some ag \<Rightarrow>
          (let messages = [SystemMessage (ContentString SYSTEM_PROMPT)] @ chatHistory a
                          @ [HumanMessage (ContentString input)]
           in case invoke ag messages of
                Inl e \<Rightarrow> (Inl e, a)
              | Inr resultMessages \<Rightarrow>
                  (let output = extract_output resultMessages
                   in (Inr output,
                       a\<lparr>chatHistory := chatHistory a
                            @ [HumanMessage (ContentString input), AIMessage (ContentString output)]\<rparr>))))"

definition MainAgent_clearHistory :: "main_agent \<Rightarrow> main_agent" where
  "MainAgent_clearHistory a = a\<lparr>chatHistory := []\<rparr>"

text \<open>
  The stored agent, if any, is one of the agents created so far.
\<close>

definition agent_created :: "main_agent \<Rightarrow> bool" where
  "agent_created a = (case agent a of None \<Rightarrow> True | Some ag \<Rightarrow> agent_id ag < created a)"

section \<open>ToolAgent (agent/tool-agent.ts)\<close>

text \<open>The result of routing; both fields hold whatever the decoded JSON held.\<close>

record router_result =
  res_skills :: json
  res_reasoning :: json

text \<open>
  \<^verbatim>\<open>response.content\<close> of the router's model call. The code casts it to a string
  without a check; when it is an array of blocks, \<^verbatim>\<open>content.match\<close> is not a function.
\<close>

datatype response_content = TextContent string | ComplexContent "content_block list"

text \<open>
  The router's model call, a parameter of \<open>ToolAgent_run\<close>: from the skills list that
  fills the system prompt and from the user's input to the response content, or a throw.
\<close>

type_synonym router_invoke = "string \<Rightarrow> string \<Rightarrow> js_error + response_content"

text \<open>\<^verbatim>\<open>Array.prototype.join\<close> on strings.\<close>

fun join :: "string \<Rightarrow> string list \<Rightarrow> string" where
  "join sep [] = []"
| "join sep [x] = x"
| "join sep (x # y # ys) = x @ sep @ join sep (y # ys)"

definition buildSkillsList :: "skills_registry \<Rightarrow> string" where
  "buildSkillsList r =
     join [CHR 0x0A]
       (map (\<lambda>s. ''- **'' @ md_name s @ ''**: '' @ md_description s) (getAllMetadata r))"

text \<open>
  \<^verbatim>\<open>content.match(/\{[\s\S]*\}/)\<close>: the leftmost match starts at the first brace
  \<^verbatim>\<open>{\<close>, the greedy star runs to the last \<^verbatim>\<open>}\<close> after it, and there is no match
  when no \<^verbatim>\<open>}\<close> follows the first \<^verbatim>\<open>{\<close>. The result is \<^verbatim>\<open>jsonMatch[0]\<close>.
\<close>

definition json_match :: "string \<Rightarrow> string option" where
  "json_match content =
     (case dropWhile (\<lambda>c. c \<noteq> CHR ''{'') content of
        [] \<Rightarrow> None
      | b # rest \<Rightarrow>
          if CHR ''}'' \<in> set rest
          then Some (b # rev (dropWhile (\<lambda>c. c \<noteq> CHR ''}'') (rev rest)))
          else None)"

definition extractResponse :: "json_parser \<Rightarrow> string \<Rightarrow> js_error + router_result" where
  "extractResponse parse content =
     (case json_match content of
        None \<Rightarrow> Inr \<lparr>res_skills = JArray [], res_reasoning = JString ''No JSON response''\<rparr>
      | Some m \<Rightarrow>
          if m = [] then Inr \<lparr>res_skills = JArray [], res_reasoning = JString ''No JSON response''\<rparr>
          else
            (case parse m of
               Inl e \<Rightarrow> Inl e
             | Inr parsed \<Rightarrow>
                 (case get_property parsed ''skills'' of
                    Inl e \<Rightarrow> Inl e
                  | Inr s \<Rightarrow>
                      (case get_property parsed ''reasoning'' of
                         Inl e \<Rightarrow> Inl e
                       | Inr rs \<Rightarrow>
                           Inr \<lparr>res_skills = or_default s (JArray []),
                                res_reasoning = or_default rs (JString ''n/a'')\<rparr>))))"

text \<open>The body of the \<^verbatim>\<open>try\<close> block of \<^verbatim>\<open>run\<close>.\<close>

definition ToolAgent_run_try ::
  "json_parser \<Rightarrow> router_invoke \<Rightarrow> skills_registry \<Rightarrow> string \<Rightarrow> js_error + router_result" where
  "ToolAgent_run_try parse invoke r input =
     (case invoke (buildSkillsList r) input of
        Inl e \<Rightarrow> Inl e
      | Inr content \<Rightarrow>
          (case content of
             ComplexContent blocks \<Rightarrow> Inl (TypeError ''content.match is not a function'')
           | TextContent c \<Rightarrow> extractResponse parse c))"

text \<open>\<^verbatim>\<open>run(input)\<close>: the \<^verbatim>\<open>try\<close> block, and the \<^verbatim>\<open>catch\<close> around it.\<close>

definition ToolAgent_run ::
  "json_parser \<Rightarrow> router_invoke \<Rightarrow> skills_registry \<Rightarrow> string \<Rightarrow> js_error + router_result" where
  "ToolAgent_run parse invoke r input =
     (case ToolAgent_run_try parse invoke r input of
        Inl error \<Rightarrow> Inr \<lparr>res_skills = JArray [], res_reasoning = JString ''Error during routing''\<rparr>
      | Inr res \<Rightarrow> Inr res)"

section \<open>The built-in skills (skills/*.ts)\<close>

definition CalculatorSkill :: skill where
  "CalculatorSkill =
     \<lparr>metadata =
        \<lparr>md_name = ''calculator'',
         md_description = ''Performs mathematical calculations including basic arithmetic, percentages, and expressions'',
         md_version = Some ''1.0.0'', md_author = None,
         md_tags = Some [''math'', ''calculation'', ''utility'']\<rparr>,
      skill_tools =
        [\<lparr>tool_name = ''calculate'',
          tool_description = ''Evaluate a mathematical expression. Supports +, -, *, /, ** (power), parentheses, and common math functions.''\<rparr>,
         \<lparr>tool_name = ''percentage'',
          tool_description = ''Calculate percentage of a number or percentage change between two numbers''\<rparr>],
      skill_initialize = Some Resolves\<rparr>"

definition WeatherSkill :: skill where
  "WeatherSkill =
     \<lparr>metadata =
        \<lparr>md_name = ''weather'',
         md_description = ''Get current weather conditions and forecasts for any location'',
         md_version = Some ''1.0.0'', md_author = None,
         md_tags = Some [''weather'', ''forecast'', ''utility'']\<rparr>,
      skill_tools =
        [\<lparr>tool_name = ''get_weather'',
          tool_description = ''Get current weather conditions for a specific location''\<rparr>,
         \<lparr>tool_name = ''get_forecast'',
          tool_description = ''Get weather forecast for the next few days''\<rparr>],
      skill_initialize = Some Resolves\<rparr>"

definition WebSearchSkill :: skill where
  "WebSearchSkill =
     \<lparr>metadata =
        \<lparr>md_name = ''web-search'',
         md_description = ''Search the web for information, articles, and documentation'',
         md_version = Some ''1.0.0'', md_author = None,
         md_tags = Some [''search'', ''web'', ''research'']\<rparr>,
      skill_tools =
        [\<lparr>tool_name = ''web_search'',
          tool_description = ''Search the web for information on any topic''\<rparr>,
         \<lparr>tool_name = ''fetch_url'',
          tool_description = ''Fetch and extract text content from a URL''\<rparr>],
      skill_initialize = Some Resolves\<rparr>"

definition DateTimeSkill :: skill where
  "DateTimeSkill =
     \<lparr>metadata =
        \<lparr>md_name = ''datetime'',
         md_description = ''Get current date/time, format dates, and calculate date differences'',
         md_version = Some ''1.0.0'', md_author = None,
         md_tags = Some [''date'', ''time'', ''utility'']\<rparr>,
      skill_tools =
        [\<lparr>tool_name = ''get_current_time'',
          tool_description = ''Get the current date and time''\<rparr>,
         \<lparr>tool_name = ''format_date'',
          tool_description = ''Format a date string into a different format''\<rparr>,
         \<lparr>tool_name = ''date_diff'',
          tool_description = ''Calculate the difference between two dates''\<rparr>],
      skill_initialize = Some Resolves\<rparr>"

section \<open>Orchestrator (orchestrator/orchestrator.ts)\<close>

text \<open>
  A \<^verbatim>\<open>ToolAgent\<close> has no state of its own: it reads the registry of the orchestrator
  that made it.
\<close>

datatype tool_agent = ToolAgent

record orchestrator =
  toolAgent :: "tool_agent option"
  chatAgent :: "main_agent option"
  orch_tools :: "tool list"
  registry :: skills_registry

definition Orchestrator_new :: orchestrator where
  "Orchestrator_new =
     \<lparr>toolAgent = None, chatAgent = None, orch_tools = [],
      registry = registerAll SkillsRegistry_new
                   [CalculatorSkill, WeatherSkill, WebSearchSkill, DateTimeSkill]\<rparr>"

definition Orchestrator_initialize :: "orchestrator \<Rightarrow> (js_error + unit) \<times> orchestrator" where
  "Orchestrator_initialize orch =
     (case initializeAll (registry orch) of
        (Inl e, r') \<Rightarrow> (Inl e, orch\<lparr>registry := r'\<rparr>)
      | (Inr u, r') \<Rightarrow>
          if length (getNames r') = 0
          then (Inl (Error ''No skills registered.''), orch\<lparr>registry := r'\<rparr>)
          else (Inr (),
                orch\<lparr>registry := r', toolAgent := Some ToolAgent,
                     chatAgent := Some (MainAgent_initialize MainAgent_new)\<rparr>))"

text \<open>
  \<^verbatim>\<open>loadSkillTools(skillName)\<close>. The name comes from decoded JSON; a value that is not a
  string is no key of the registry's map, so \<^verbatim>\<open>loadSkill\<close> answers \<^verbatim>\<open>null\<close>.
\<close>

definition loadSkillTools :: "orchestrator \<Rightarrow> json \<Rightarrow> bool \<times> orchestrator" where
  "loadSkillTools orch skillName =
     (case skillName of
        JString name \<Rightarrow>
          (case loadSkill (registry orch) name of
             (None, r') \<Rightarrow> (False, orch\<lparr>registry := r'\<rparr>)
           | (Some ts, r') \<Rightarrow> (True, orch\<lparr>registry := r', orch_tools := orch_tools orch @ ts\<rparr>))
      | _ \<Rightarrow> (False, orch))"

text \<open>The \<^verbatim>\<open>for ... of\<close> loop of \<^verbatim>\<open>handleToolsLoading\<close>, with its flag.\<close>

fun loadEach :: "orchestrator \<Rightarrow> bool \<Rightarrow> json list \<Rightarrow> bool \<times> orchestrator" where
  "loadEach orch toolsAdded [] = (toolsAdded, orch)"
| "loadEach orch toolsAdded (skillName # rest) =
     (case loadSkillTools orch skillName of
        (loaded, orch') \<Rightarrow> loadEach orch' (if loaded then True else toolsAdded) rest)"

text \<open>
  \<^verbatim>\<open>skills?.length\<close> read as a condition: the length of an array or of a string, the
  \<^verbatim>\<open>length\<close> property of an object, \<^verbatim>\<open>undefined\<close> on \<^verbatim>\<open>null\<close> (by \<^verbatim>\<open>?.\<close>),
  on a boolean and on a number.
\<close>

definition length_truthy :: "json \<Rightarrow> bool" where
  "length_truthy v =
     (case v of
        JArray xs \<Rightarrow> length xs \<noteq> 0
      | JString s \<Rightarrow> length s \<noteq> 0
      | JObject kvs \<Rightarrow> (case Map_get kvs ''length'' of None \<Rightarrow> False | Some l \<Rightarrow> truthy l)
      | _ \<Rightarrow> False)"

text \<open>
  What \<^verbatim>\<open>for (const skillName of skills)\<close> iterates over: the elements of an array,
  the characters of a string; any other value is not iterable.
\<close>

definition iterate :: "json \<Rightarrow> js_error + json list" where
  "iterate v =
     (case v of
        JArray xs \<Rightarrow> Inr xs
      | JString s \<Rightarrow> Inr (map (\<lambda>c. JString [c]) s)
      | _ \<Rightarrow> Inl (TypeError ''toolAgentResponse.skills is not iterable''))"

definition handleToolsLoading ::
  "orchestrator \<Rightarrow> router_result \<Rightarrow> (js_error + bool) \<times> orchestrator" where
  "handleToolsLoading orch toolAgentResponse =
     (if \<not> length_truthy (res_skills toolAgentResponse) then (Inr False, orch)
      else
        (case iterate (res_skills toolAgentResponse) of
           Inl e \<Rightarrow> (Inl e, orch)
         | Inr names \<Rightarrow>
             (case loadEach orch False names of
                (toolsAdded, orch') \<Rightarrow> (Inr toolsAdded, orch'))))"

definition Orchestrator_run ::
  "json_parser \<Rightarrow> router_invoke \<Rightarrow> agent_invoke \<Rightarrow> orchestrator \<Rightarrow> string
     \<Rightarrow> (js_error + string) \<times> orchestrator" where
  "Orchestrator_run parse route invoke orch input =
     (case (toolAgent orch, chatAgent orch) of
        (Some ta, Some ca) \<Rightarrow>
          (case ToolAgent_run parse route (registry orch) input of
             Inl e \<Rightarrow> (Inl e, orch)
           | Inr toolAgentResponse \<Rightarrow>
               (case handleToolsLoading orch toolAgentResponse of
                  (Inl e, orch') \<Rightarrow> (Inl e, orch')
                | (Inr needRebuild, orch') \<Rightarrow>
                    (let ca' = (if needRebuild then buildExecutor ca (Some (orch_tools orch')) else ca)
                     in case MainAgent_run invoke ca' input of
                          (res, ca'') \<Rightarrow> (res, orch'\<lparr>chatAgent := Some ca''\<rparr>))))
      | _ \<Rightarrow> (Inl (Error ''Orchestrator not initialized. Call initialize() first.''), orch))"

definition getLoadedSkills :: "orchestrator \<Rightarrow> string list" where
  "getLoadedSkills orch = getLoadedSkillNames (registry orch)"

definition getAvailableSkills :: "orchestrator \<Rightarrow> (string \<times> string) list" where
  "getAvailableSkills orch =
     map (\<lambda>sk. (md_name sk, md_description sk)) (getAllMetadata (registry orch))"

text \<open>
  \<^verbatim>\<open>clearHistory()\<close> has no \<^verbatim>\<open>throw\<close>: without a chat agent the body of its
  \<^verbatim>\<open>if\<close> is skipped and the call returns.
\<close>

definition Orchestrator_clearHistory :: "orchestrator \<Rightarrow> (js_error + unit) \<times> orchestrator" where
  "Orchestrator_clearHistory orch =
     (case chatAgent orch of
        None \<Rightarrow> (Inr (), orch)
      | Some ca \<Rightarrow>
          (Inr (),
           orch\<lparr>chatAgent := Some (buildExecutor (MainAgent_clearHistory ca) (Some [])),
                orch_tools := [],
                registry := resetLoadedSkills (registry orch)\<rparr>))"

section \<open>Registry: facts\<close>

lemma Map_keys_Map_set: "set (Map_keys (Map_set k v m)) = insert k (set (Map_keys m))"
proof (induction m)
  case Nil
  show ?case by (simp add: Map_keys_def)
next
  case (Cons p m)
  obtain k' v' where p: "p = (k', v')" by (cases p)
  show ?case
  proof (cases "k' = k")
    case True
    with p show ?thesis by (auto simp: Map_keys_def)
  next
    case False
    with p Cons.IH show ?thesis by (auto simp: Map_keys_def)
  qed
qed

lemma Map_get_in_keys: "Map_get m k = Some v \<Longrightarrow> k \<in> set (Map_keys m)"
  unfolding Map_get_def Map_keys_def by (metis map_of_SomeD fst_conv image_eqI set_map)

lemma registered_register: "registered (register r sk) = insert (md_name (metadata sk)) (registered r)"
  by (simp add: registered_def register_def Map_keys_Map_set)

lemma register_sets:
  "initialized (register r sk) = initialized r" "loadedSkills (register r sk) = loadedSkills r"
  by (simp_all add: register_def)

lemma registerAll_sets:
  "initialized (registerAll r sks) = initialized r \<and> loadedSkills (registerAll r sks) = loadedSkills r"
  by (induction sks arbitrary: r) (simp_all add: register_sets)

lemma registered_registerAll:
  "registered (registerAll r sks) = registered r \<union> (md_name \<circ> metadata) ` set sks"
  by (induction sks arbitrary: r) (auto simp: registered_register)

lemma loadSkill_frame:
  "skills (snd (loadSkill r name)) = skills r \<and> initialized (snd (loadSkill r name)) = initialized r"
  by (simp add: loadSkill_def split: option.splits)

lemma loadSkill_loaded:
  "set (loadedSkills (snd (loadSkill r name))) \<subseteq> insert name (set (loadedSkills r))"
  by (auto simp: loadSkill_def Set_add_def split: option.splits if_splits)

lemma loadSkill_adds_registered:
  "loadedSkills (snd (loadSkill r name)) \<noteq> loadedSkills r \<Longrightarrow> name \<in> registered r"
  by (auto simp: loadSkill_def registered_def split: option.splits if_splits dest: Map_get_in_keys)

lemma initializeSkill_frame:
  "skills (snd (initializeSkill r name)) = skills r
   \<and> loadedSkills (snd (initializeSkill r name)) = loadedSkills r"
  by (simp add: initializeSkill_def split: option.splits hook_outcome.splits)

lemma initializeSkill_adds_registered:
  "initialized (snd (initializeSkill r name)) \<noteq> initialized r \<Longrightarrow> name \<in> registered r"
  by (auto simp: initializeSkill_def registered_def
      split: option.splits if_splits hook_outcome.splits dest: Map_get_in_keys)

lemma initializeSkill_initialized:
  "set (initialized (snd (initializeSkill r name))) \<subseteq> insert name (set (initialized r))"
  by (auto simp: initializeSkill_def Set_add_def Set_has_def
      split: option.splits if_splits hook_outcome.splits)

lemma registry_inv_initializeSkill:
  assumes "registry_inv r"
  shows "registry_inv (snd (initializeSkill r name))"
proof -
  let ?r' = "snd (initializeSkill r name)"
  have reg: "registered ?r' = registered r"
    by (simp add: registered_def initializeSkill_frame)
  have ld: "loadedSkills ?r' = loadedSkills r"
    by (simp add: initializeSkill_frame)
  have "set (initialized ?r') \<subseteq> registered r"
  proof (cases "initialized ?r' = initialized r")
    case True
    with assms show ?thesis by (simp add: registry_inv_def)
  next
    case False
    then have "name \<in> registered r" by (rule initializeSkill_adds_registered)
    with initializeSkill_initialized [of r name] assms show ?thesis
      by (auto simp: registry_inv_def)
  qed
  with assms reg ld show ?thesis by (simp add: registry_inv_def)
qed

lemma initializeEach_frame:
  "skills (snd (initializeEach r names)) = skills r
   \<and> loadedSkills (snd (initializeEach r names)) = loadedSkills r"
proof (induction names arbitrary: r)
  case Nil
  show ?case by simp
next
  case (Cons n ns)
  obtain res r' where step: "initializeSkill r n = (res, r')" by (cases "initializeSkill r n")
  have fr: "skills r' = skills r \<and> loadedSkills r' = loadedSkills r"
    using initializeSkill_frame [of r n] step by simp
  show ?case
  proof (cases res)
    case (Inl e)
    with step fr show ?thesis by simp
  next
    case (Inr u)
    with step fr Cons.IH [of r'] show ?thesis by simp
  qed
qed

lemma registry_inv_initializeEach:
  "registry_inv r \<Longrightarrow> registry_inv (snd (initializeEach r names))"
proof (induction names arbitrary: r)
  case Nil
  then show ?case by simp
next
  case (Cons n ns)
  obtain res r' where step: "initializeSkill r n = (res, r')" by (cases "initializeSkill r n")
  have inv': "registry_inv r'"
    using registry_inv_initializeSkill [OF Cons.prems, of n] step by simp
  show ?case
  proof (cases res)
    case (Inl e)
    with step inv' show ?thesis by simp
  next
    case (Inr u)
    with step Cons.IH [OF inv'] show ?thesis by simp
  qed
qed

lemma registry_inv_loadSkill:
  assumes "registry_inv r"
  shows "registry_inv (snd (loadSkill r name))"
proof -
  let ?r' = "snd (loadSkill r name)"
  have reg: "registered ?r' = registered r"
    by (simp add: registered_def loadSkill_frame)
  have ini: "initialized ?r' = initialized r"
    by (simp add: loadSkill_frame)
  have "set (loadedSkills ?r') \<subseteq> registered r"
  proof (cases "loadedSkills ?r' = loadedSkills r")
    case True
    with assms show ?thesis by (simp add: registry_inv_def)
  next
    case False
    then have "name \<in> registered r" by (rule loadSkill_adds_registered)
    with loadSkill_loaded [of r name] assms show ?thesis
      by (auto simp: registry_inv_def)
  qed
  with assms reg ini show ?thesis by (simp add: registry_inv_def)
qed

lemma registry_inv_register: "registry_inv r \<Longrightarrow> registry_inv (register r sk)"
  by (auto simp: registry_inv_def registered_register register_sets)

lemma registry_inv_registerAll: "registry_inv r \<Longrightarrow> registry_inv (registerAll r sks)"
  by (induction sks arbitrary: r) (simp_all add: registry_inv_register)

lemma registry_step_register: "registry_step r (register r sk)"
  by (auto simp: registry_step_def registered_register register_sets)

lemma registry_step_registerAll: "registry_step r (registerAll r sks)"
  by (auto simp: registry_step_def registered_registerAll registerAll_sets)

lemma registry_step_loadSkill: "registry_step r (snd (loadSkill r name))"
proof -
  let ?r' = "snd (loadSkill r name)"
  have reg: "registered ?r' = registered r"
    by (simp add: registered_def loadSkill_frame)
  have "set (loadedSkills ?r') \<subseteq> set (loadedSkills r) \<union> registered r"
  proof (cases "loadedSkills ?r' = loadedSkills r")
    case True
    then show ?thesis by simp
  next
    case False
    then have "name \<in> registered r" by (rule loadSkill_adds_registered)
    with loadSkill_loaded [of r name] show ?thesis by auto
  qed
  with reg show ?thesis by (simp add: registry_step_def loadSkill_frame)
qed

lemma initializeSkill_new_registered:
  "set (initialized (snd (initializeSkill r name))) \<subseteq> set (initialized r) \<union> registered r"
proof (cases "initialized (snd (initializeSkill r name)) = initialized r")
  case True
  then show ?thesis by simp
next
  case False
  then have "name \<in> registered r" by (rule initializeSkill_adds_registered)
  with initializeSkill_initialized [of r name] show ?thesis by auto
qed

lemma registry_step_initializeSkill: "registry_step r (snd (initializeSkill r name))"
  using initializeSkill_new_registered [of r name]
  by (simp add: registry_step_def registered_def initializeSkill_frame)

lemma initializeEach_new_registered:
  "set (initialized (snd (initializeEach r names))) \<subseteq> set (initialized r) \<union> registered r"
proof (induction names arbitrary: r)
  case Nil
  show ?case by simp
next
  case (Cons n ns)
  obtain res r' where step: "initializeSkill r n = (res, r')" by (cases "initializeSkill r n")
  have sub: "set (initialized r') \<subseteq> set (initialized r) \<union> registered r"
    using initializeSkill_new_registered [of r n] step by simp
  have reg: "registered r' = registered r"
    using initializeSkill_frame [of r n] step by (simp add: registered_def)
  show ?case
  proof (cases res)
    case (Inl e)
    with step sub show ?thesis by simp
  next
    case (Inr u)
    with step sub reg Cons.IH [of r'] show ?thesis by auto
  qed
qed

lemma registry_step_initializeAll: "registry_step r (snd (initializeAll r))"
  using initializeEach_new_registered [of r "Map_keys (skills r)"]
  by (simp add: registry_step_def registered_def initializeAll_def initializeEach_frame)

lemma registry_step_resetLoadedSkills: "registry_step r (resetLoadedSkills r)"
  by (simp add: registry_step_def registered_def resetLoadedSkills_def)

lemma registry_inv_step: "registry_inv r \<Longrightarrow> registry_step r r' \<Longrightarrow> registry_inv r'"
  by (auto simp: registry_inv_def registry_step_def)

lemma loadSkill_None_iff:
  "fst (loadSkill r name) = None \<longleftrightarrow> get r name = None \<or> isSkillLoaded r name"
  by (simp add: loadSkill_def get_def isSkillLoaded_def split: option.splits)

lemma loadSkill_success:
  assumes "get r name = Some sk" and "\<not> isSkillLoaded r name"
  shows "loadSkill r name = (Some (skill_tools sk), r\<lparr>loadedSkills := loadedSkills r @ [name]\<rparr>)"
  using assms by (simp add: loadSkill_def get_def isSkillLoaded_def Set_add_def)

lemma loadSkill_again:
  "loadSkill (snd (loadSkill r name)) name = (None, snd (loadSkill r name))"
  by (simp add: loadSkill_def Set_add_def Set_has_def split: option.splits)

section \<open>Claims about the registry\<close>

text \<open>
  C3. \<^verbatim>\<open>loadSkill(name)\<close> returns absent exactly when the name is not registered or is
  already in the loaded set. On success it returns the skill's whole tool sequence and
  adds the name to the loaded set (at its end, the other members kept). Of two
  consecutive calls for one name the second always returns absent and leaves the registry,
  hence the size of the loaded set, as the first call left it; the first returns a result
  exactly when the name is registered and not yet loaded.
\<close>

theorem loadSkill_absent_iff_and_repeat:
  "(fst (loadSkill r name) = None \<longleftrightarrow> get r name = None \<or> isSkillLoaded r name)
   \<and> (\<forall>sk. get r name = Some sk \<and> \<not> isSkillLoaded r name \<longrightarrow>
          fst (loadSkill r name) = Some (skill_tools sk)
          \<and> loadedSkills (snd (loadSkill r name)) = loadedSkills r @ [name]
          \<and> isSkillLoaded (snd (loadSkill r name)) name
          \<and> set (getLoadedSkillNames (snd (loadSkill r name))) = insert name (set (getLoadedSkillNames r)))
   \<and> fst (loadSkill (snd (loadSkill r name)) name) = None
   \<and> snd (loadSkill (snd (loadSkill r name)) name) = snd (loadSkill r name)
   \<and> length (loadedSkills (snd (loadSkill (snd (loadSkill r name)) name)))
       = length (loadedSkills (snd (loadSkill r name)))
   \<and> (fst (loadSkill r name) \<noteq> None \<longleftrightarrow> get r name \<noteq> None \<and> \<not> isSkillLoaded r name)"
proof -
  have a: "fst (loadSkill r name) = None \<longleftrightarrow> get r name = None \<or> isSkillLoaded r name"
    by (rule loadSkill_None_iff)
  have b: "\<forall>sk. get r name = Some sk \<and> \<not> isSkillLoaded r name \<longrightarrow>
          fst (loadSkill r name) = Some (skill_tools sk)
          \<and> loadedSkills (snd (loadSkill r name)) = loadedSkills r @ [name]
          \<and> isSkillLoaded (snd (loadSkill r name)) name
          \<and> set (getLoadedSkillNames (snd (loadSkill r name))) = insert name (set (getLoadedSkillNames r))"
    by (auto simp: loadSkill_success isSkillLoaded_def Set_has_def getLoadedSkillNames_def)
  have c: "loadSkill (snd (loadSkill r name)) name = (None, snd (loadSkill r name))"
    by (rule loadSkill_again)
  from a b c show ?thesis by simp
qed

theorem loadSkill_absent_iff_and_repeat_witness:
  "get (register SkillsRegistry_new WeatherSkill) ''weather'' = Some WeatherSkill
   \<and> \<not> isSkillLoaded (register SkillsRegistry_new WeatherSkill) ''weather''
   \<and> fst (loadSkill (register SkillsRegistry_new WeatherSkill) ''weather'')
        = Some (skill_tools WeatherSkill)
   \<and> getLoadedSkillNames (snd (loadSkill (register SkillsRegistry_new WeatherSkill) ''weather''))
        = [''weather'']
   \<and> fst (loadSkill (snd (loadSkill (register SkillsRegistry_new WeatherSkill) ''weather'')) ''weather'')
        = None"
proof -
  let ?r = "register SkillsRegistry_new WeatherSkill"
  have m: "md_name (metadata WeatherSkill) = ''weather''"
    by (simp add: WeatherSkill_def)
  have h: "get ?r ''weather'' = Some WeatherSkill \<and> \<not> isSkillLoaded ?r ''weather''"
    by (simp add: register_def SkillsRegistry_new_def get_def Map_get_def isSkillLoaded_def
        Set_has_def m)
  have e: "loadedSkills ?r = []"
    by (simp add: register_def SkillsRegistry_new_def)
  from loadSkill_absent_iff_and_repeat [of ?r "''weather''"] h e show ?thesis
    by (simp add: getLoadedSkillNames_def)
qed

text \<open>
  C8. The invariant \<open>initialized \<subseteq> registered\<close> and \<open>loadedSkills \<subseteq> registered\<close> holds
  in the initial registry and is preserved by \<^verbatim>\<open>register\<close>, \<^verbatim>\<open>registerAll\<close>,
  \<^verbatim>\<open>loadSkill\<close>, \<^verbatim>\<open>initializeSkill\<close>, \<^verbatim>\<open>initializeAll\<close> and
  \<^verbatim>\<open>resetLoadedSkills\<close>, whether they return or throw. Each of them keeps every
  registered name and puts a new name into either set only if it is a key of the map.
\<close>

theorem registry_invariant_preserved:
  "registry_inv SkillsRegistry_new
   \<and> (registry_inv r \<longrightarrow>
        registry_inv (register r sk) \<and> registry_inv (registerAll r sks)
        \<and> registry_inv (snd (loadSkill r name)) \<and> registry_inv (snd (initializeSkill r name))
        \<and> registry_inv (snd (initializeAll r)) \<and> registry_inv (resetLoadedSkills r))
   \<and> registry_step r (register r sk) \<and> registry_step r (registerAll r sks)
   \<and> registry_step r (snd (loadSkill r name)) \<and> registry_step r (snd (initializeSkill r name))
   \<and> registry_step r (snd (initializeAll r)) \<and> registry_step r (resetLoadedSkills r)"
proof -
  have init: "registry_inv SkillsRegistry_new"
    by (simp add: registry_inv_def SkillsRegistry_new_def)
  have steps: "registry_step r (register r sk)" "registry_step r (registerAll r sks)"
    "registry_step r (snd (loadSkill r name))" "registry_step r (snd (initializeSkill r name))"
    "registry_step r (snd (initializeAll r))" "registry_step r (resetLoadedSkills r)"
    by (rule registry_step_register registry_step_registerAll registry_step_loadSkill
        registry_step_initializeSkill registry_step_initializeAll
        registry_step_resetLoadedSkills)+
  have pres: "registry_inv r \<longrightarrow>
        registry_inv (register r sk) \<and> registry_inv (registerAll r sks)
        \<and> registry_inv (snd (loadSkill r name)) \<and> registry_inv (snd (initializeSkill r name))
        \<and> registry_inv (snd (initializeAll r)) \<and> registry_inv (resetLoadedSkills r)"
    using steps by (blast intro: registry_inv_step)
  from init steps pres show ?thesis by blast
qed

theorem registry_invariant_preserved_witness:
  "registry_inv (register SkillsRegistry_new WeatherSkill)
   \<and> registry_inv (snd (loadSkill (register SkillsRegistry_new WeatherSkill) ''weather''))
   \<and> registry_inv (snd (initializeAll (register SkillsRegistry_new WeatherSkill)))
   \<and> registry_inv (register (register SkillsRegistry_new WeatherSkill) CalculatorSkill)
   \<and> registry_inv (resetLoadedSkills (register SkillsRegistry_new WeatherSkill))"
proof -
  let ?r = "register SkillsRegistry_new WeatherSkill"
  have h: "registry_inv ?r"
    by (simp add: registry_inv_def register_def SkillsRegistry_new_def)
  from registry_invariant_preserved [of ?r CalculatorSkill "[]" "''weather''"] h
  show ?thesis by blast
qed

section \<open>MainAgent: facts\<close>

lemma buildExecutor_tools:
  "tools (buildExecutor a (Some nt))
     = tools a @ filter (\<lambda>t. tool_name t \<notin> set (map tool_name (tools a))) nt"
proof -
  have "filter (\<lambda>t. tool_name t \<notin> set (filter (\<lambda>name. name \<in> set (map tool_name (tools a)))
                                            (map tool_name nt))) nt
        = filter (\<lambda>t. tool_name t \<notin> set (map tool_name (tools a))) nt"
    by (rule filter_cong) auto
  then show ?thesis
    by (cases "nt = []") (simp_all add: buildExecutor_def Let_def)
qed

lemma buildExecutor_agent:
  "agent (buildExecutor a newTools)
     = Some (createAgent (tools (buildExecutor a newTools)) (created a))"
  by (simp add: buildExecutor_def Let_def split: option.splits)

lemma buildExecutor_created: "created (buildExecutor a newTools) = Suc (created a)"
  by (simp add: buildExecutor_def Let_def split: option.splits)

lemma buildExecutor_new_agent:
  "agent (buildExecutor (buildExecutor a newTools) newTools') \<noteq> agent (buildExecutor a newTools)"
  by (simp add: buildExecutor_agent buildExecutor_created createAgent_def)

lemma buildExecutor_replaces_agent:
  assumes "agent_created a"
  shows "agent (buildExecutor a newTools) \<noteq> agent a"
  using assms
  by (cases "agent a") (auto simp: buildExecutor_agent agent_created_def createAgent_def)

lemma agent_created_buildExecutor: "agent_created (buildExecutor a newTools)"
  by (simp add: agent_created_def buildExecutor_agent buildExecutor_created createAgent_def)

lemma agent_created_MainAgent_new: "agent_created MainAgent_new"
  by (simp add: agent_created_def MainAgent_new_def)

lemma agent_created_MainAgent_initialize: "agent_created (MainAgent_initialize a)"
  by (simp add: MainAgent_initialize_def agent_created_buildExecutor)

lemma agent_created_MainAgent_clearHistory:
  "agent_created a \<Longrightarrow> agent_created (MainAgent_clearHistory a)"
  by (simp add: agent_created_def MainAgent_clearHistory_def split: option.splits)

lemma buildExecutor_chatHistory: "chatHistory (buildExecutor a newTools) = chatHistory a"
  by (simp add: buildExecutor_def Let_def split: option.splits)

lemma buildExecutor_empty:
  "newTools = None \<or> newTools = Some [] \<Longrightarrow> tools (buildExecutor a newTools) = tools a"
  by (auto simp: buildExecutor_def)

lemma buildExecutor_prefix: "take (length (tools a)) (tools (buildExecutor a newTools)) = tools a"
  by (cases newTools) (simp_all add: buildExecutor_tools buildExecutor_empty)

lemma buildExecutor_covers:
  "tool_name ` set nt \<subseteq> tool_name ` set (tools (buildExecutor a (Some nt)))"
  by (auto simp: buildExecutor_tools)

lemma buildExecutor_again:
  "tools (buildExecutor (buildExecutor a (Some nt)) (Some nt)) = tools (buildExecutor a (Some nt))"
proof -
  let ?a' = "buildExecutor a (Some nt)"
  have "filter (\<lambda>t. tool_name t \<notin> set (map tool_name (tools ?a'))) nt = []"
    using buildExecutor_covers [of nt a] by (auto simp: filter_empty_conv)
  then show ?thesis
    using buildExecutor_tools [of ?a' nt] by simp
qed

lemma buildExecutor_distinct:
  assumes "distinct (map tool_name (tools a))" and "distinct (map tool_name nt)"
  shows "distinct (map tool_name (tools (buildExecutor a (Some nt))))"
proof -
  have "tool_name x \<noteq> tool_name y"
    if "x \<in> set (tools a)" and "y \<in> set nt"
      and "tool_name y \<notin> set (map tool_name (tools a))" for x y
    using that by (metis image_eqI set_map)
  with assms show ?thesis
    by (auto simp: buildExecutor_tools distinct_map_filter)
qed

lemma MainAgent_run_failure:
  assumes "fst (MainAgent_run invoke a input) = Inl e"
  shows "snd (MainAgent_run invoke a input) = a"
  using assms by (auto simp: MainAgent_run_def Let_def split: option.splits sum.splits)

lemma MainAgent_run_success:
  assumes "agent a = Some ag"
    and "invoke ag (SystemMessage (ContentString SYSTEM_PROMPT) # chatHistory a
                    @ [HumanMessage (ContentString input)]) = Inr ms"
  shows "MainAgent_run invoke a input
           = (Inr (extract_output ms),
              a\<lparr>chatHistory := chatHistory a
                   @ [HumanMessage (ContentString input),
                      AIMessage (ContentString (extract_output ms))]\<rparr>)"
  using assms by (simp add: MainAgent_run_def Let_def)

lemma MainAgent_run_throws:
  assumes "agent a = Some ag"
    and "invoke ag (SystemMessage (ContentString SYSTEM_PROMPT) # chatHistory a
                    @ [HumanMessage (ContentString input)]) = Inl e"
  shows "MainAgent_run invoke a input = (Inl e, a)"
  using assms by (simp add: MainAgent_run_def Let_def)

lemma MainAgent_run_tools: "tools (snd (MainAgent_run invoke a input)) = tools a"
  by (simp add: MainAgent_run_def Let_def split: option.splits sum.splits)

section \<open>Claims about the main agent\<close>

text \<open>
  C2. \<^verbatim>\<open>buildExecutor\<close> is claimed to keep every tool name unique. It removes from the
  incoming tools only the names that the agent already holds: two incoming tools of one
  name that the agent does not hold yet are both appended. Here an agent without tools
  is given two tools named \<^verbatim>\<open>get_weather\<close> and ends with that name twice.
\<close>

theorem buildExecutor_keeps_incoming_duplicates:
  "map tool_name
     (tools (buildExecutor MainAgent_new
        (Some [\<lparr>tool_name = ''get_weather'', tool_description = ''first''\<rparr>,
               \<lparr>tool_name = ''get_weather'', tool_description = ''second''\<rparr>])))
   = [''get_weather'', ''get_weather'']
   \<and> \<not> distinct (map tool_name
        (tools (buildExecutor MainAgent_new
           (Some [\<lparr>tool_name = ''get_weather'', tool_description = ''first''\<rparr>,
                  \<lparr>tool_name = ''get_weather'', tool_description = ''second''\<rparr>]))))"
  by (simp add: buildExecutor_def MainAgent_new_def Let_def)

text \<open>
  C9. \<^verbatim>\<open>buildExecutor\<close> creates the agent anew on every call, whatever
  \<^verbatim>\<open>newTools\<close> is: each call makes one more \<^verbatim>\<open>createAgent\<close> call, stores the
  agent that call returns, bound to the tool set the call ends with, and that agent is a
  new object: it is not the agent stored before the call, and a further call replaces it
  again. When \<^verbatim>\<open>newTools\<close> is omitted or empty the merge is skipped: the stored tool
  set (and the history) is as before, and only the agent is replaced.
\<close>

theorem buildExecutor_always_rebuilds:
  "agent (buildExecutor a newTools)
     = Some (createAgent (tools (buildExecutor a newTools)) (created a))
   \<and> created (buildExecutor a newTools) = Suc (created a)
   \<and> agent (buildExecutor (buildExecutor a newTools) newTools') \<noteq> agent (buildExecutor a newTools)
   \<and> agent_created MainAgent_new
   \<and> agent_created (buildExecutor a newTools)
   \<and> (agent_created a \<longrightarrow> agent (buildExecutor a newTools) \<noteq> agent a)
   \<and> (newTools = None \<or> newTools = Some [] \<longrightarrow>
        tools (buildExecutor a newTools) = tools a
        \<and> chatHistory (buildExecutor a newTools) = chatHistory a
        \<and> buildExecutor a newTools
            = a\<lparr>agent := Some (createAgent (tools a) (created a)), created := Suc (created a)\<rparr>)"
proof -
  have frame: "newTools = None \<or> newTools = Some [] \<longrightarrow>
        tools (buildExecutor a newTools) = tools a
        \<and> chatHistory (buildExecutor a newTools) = chatHistory a
        \<and> buildExecutor a newTools
            = a\<lparr>agent := Some (createAgent (tools a) (created a)), created := Suc (created a)\<rparr>"
    by (auto simp: buildExecutor_def Let_def)
  have repl: "agent_created a \<longrightarrow> agent (buildExecutor a newTools) \<noteq> agent a"
    using buildExecutor_replaces_agent [of a newTools] by blast
  show ?thesis
    by (rule conjI [OF buildExecutor_agent conjI [OF buildExecutor_created
          conjI [OF buildExecutor_new_agent conjI [OF agent_created_MainAgent_new
          conjI [OF agent_created_buildExecutor conjI [OF repl frame]]]]]])
qed

theorem buildExecutor_always_rebuilds_witness:
  "agent (buildExecutor MainAgent_new (Some (skill_tools WeatherSkill)))
     = Some (createAgent (skill_tools WeatherSkill) 0)
   \<and> tools (buildExecutor (buildExecutor MainAgent_new (Some (skill_tools WeatherSkill))) (Some []))
     = skill_tools WeatherSkill
   \<and> agent (buildExecutor (buildExecutor MainAgent_new (Some (skill_tools WeatherSkill))) (Some []))
     = Some (createAgent (skill_tools WeatherSkill) 1)
   \<and> agent (buildExecutor (buildExecutor MainAgent_new (Some (skill_tools WeatherSkill))) (Some []))
     \<noteq> agent (buildExecutor MainAgent_new (Some (skill_tools WeatherSkill)))
   \<and> tools (buildExecutor (buildExecutor MainAgent_new (Some (skill_tools WeatherSkill))) None)
     = skill_tools WeatherSkill
   \<and> created (buildExecutor (buildExecutor MainAgent_new (Some (skill_tools WeatherSkill))) None) = 2"
proof -
  let ?a = "buildExecutor MainAgent_new (Some (skill_tools WeatherSkill))"
  have t: "tools ?a = skill_tools WeatherSkill"
    by (simp add: buildExecutor_tools MainAgent_new_def)
  have c0: "created MainAgent_new = 0"
    by (simp add: MainAgent_new_def)
  have c: "created ?a = 1"
    by (simp add: buildExecutor_created MainAgent_new_def)
  have inv: "agent_created ?a"
    by (rule buildExecutor_always_rebuilds [of MainAgent_new "Some (skill_tools WeatherSkill)" None,
          THEN conjunct2, THEN conjunct2, THEN conjunct2, THEN conjunct2, THEN conjunct1])
  have a0: "agent ?a = Some (createAgent (skill_tools WeatherSkill) 0)"
    using buildExecutor_always_rebuilds [of MainAgent_new "Some (skill_tools WeatherSkill)" None,
          THEN conjunct1]
    by (simp only: t c0)
  note empty = buildExecutor_always_rebuilds [of ?a "Some []" None]
  note absent = buildExecutor_always_rebuilds [of ?a None None]
  have e: "Some [] = None \<or> Some [] = Some ([] :: tool list)"
    and n: "None = None \<or> None = Some ([] :: tool list)"
    by simp_all
  have t1: "tools (buildExecutor ?a (Some [])) = skill_tools WeatherSkill"
    using empty [THEN conjunct2, THEN conjunct2, THEN conjunct2, THEN conjunct2, THEN conjunct2,
        THEN conjunct2, rule_format, OF e, THEN conjunct1]
    by (simp only: t)
  have a1: "agent (buildExecutor ?a (Some [])) = Some (createAgent (skill_tools WeatherSkill) 1)"
    using empty [THEN conjunct1] by (simp only: t1 c)
  have d: "agent (buildExecutor ?a (Some [])) \<noteq> agent ?a"
    by (rule empty [THEN conjunct2, THEN conjunct2, THEN conjunct2, THEN conjunct2, THEN conjunct2,
        THEN conjunct1, rule_format, OF inv])
  have t2: "tools (buildExecutor ?a None) = skill_tools WeatherSkill"
    using absent [THEN conjunct2, THEN conjunct2, THEN conjunct2, THEN conjunct2, THEN conjunct2,
        THEN conjunct2, rule_format, OF n, THEN conjunct1]
    by (simp only: t)
  have c2: "created (buildExecutor ?a None) = 2"
    using absent [THEN conjunct2, THEN conjunct1] by (simp add: c)
  show ?thesis
    by (rule conjI [OF a0 conjI [OF t1 conjI [OF a1 conjI [OF d conjI [OF t2 c2]]]]])
qed

text \<open>
  C6. \<^verbatim>\<open>MainAgent.run\<close> writes the history only after the model call has returned: when
  the call throws, \<^verbatim>\<open>run\<close> throws the same error and the agent is exactly as before;
  when it returns, the user message and then the assistant message are appended, and
  nothing else changes. Whenever \<^verbatim>\<open>run\<close> throws, for whatever reason, the agent is
  unchanged, so no call leaves a user message without its answer.
\<close>

theorem MainAgent_run_history_atomic:
  "(\<forall>ag e. agent a = Some ag
        \<and> invoke ag (SystemMessage (ContentString SYSTEM_PROMPT) # chatHistory a
                     @ [HumanMessage (ContentString input)]) = Inl e
        \<longrightarrow> MainAgent_run invoke a input = (Inl e, a))
   \<and> (\<forall>ag ms. agent a = Some ag
        \<and> invoke ag (SystemMessage (ContentString SYSTEM_PROMPT) # chatHistory a
                     @ [HumanMessage (ContentString input)]) = Inr ms
        \<longrightarrow> MainAgent_run invoke a input
             = (Inr (extract_output ms),
                a\<lparr>chatHistory := chatHistory a
                     @ [HumanMessage (ContentString input),
                        AIMessage (ContentString (extract_output ms))]\<rparr>))
   \<and> (\<forall>e. fst (MainAgent_run invoke a input) = Inl e \<longrightarrow> snd (MainAgent_run invoke a input) = a)"
  using MainAgent_run_throws [of a _ invoke input] MainAgent_run_success [of a _ invoke input]
    MainAgent_run_failure [of invoke a input]
  by blast

theorem MainAgent_run_history_atomic_witness:
  "MainAgent_run (\<lambda>ag ms. Inl (Error ''model failed'')) (MainAgent_initialize MainAgent_new) ''hi''
     = (Inl (Error ''model failed''), MainAgent_initialize MainAgent_new)
   \<and> chatHistory (snd (MainAgent_run (\<lambda>ag ms. Inr [AIMessage (ContentString ''hello'')])
                          (MainAgent_initialize MainAgent_new) ''hi''))
     = [HumanMessage (ContentString ''hi''), AIMessage (ContentString ''hello'')]"
proof -
  let ?a = "MainAgent_initialize MainAgent_new"
  let ?fails = "\<lambda>(ag :: react_agent) (ms :: message list).
                  (Inl (Error ''model failed'') :: js_error + message list)"
  let ?answers = "\<lambda>(ag :: react_agent) (ms :: message list).
                    (Inr [AIMessage (ContentString ''hello'')] :: js_error + message list)"
  have ag: "agent ?a = Some (createAgent [] 0)" and h: "chatHistory ?a = []"
    by (simp_all add: MainAgent_initialize_def MainAgent_new_def buildExecutor_def)
  have r1: "MainAgent_run ?fails ?a ''hi'' = (Inl (Error ''model failed''), ?a)"
    by (rule MainAgent_run_history_atomic [of ?a ?fails "''hi''", THEN conjunct1, rule_format])
      (simp add: ag)
  have u: "snd (MainAgent_run ?fails ?a ''hi'') = ?a"
    by (rule MainAgent_run_history_atomic
          [of ?a ?fails "''hi''", THEN conjunct2, THEN conjunct2, rule_format])
      (simp add: r1)
  have r2: "MainAgent_run ?answers ?a ''hi''
          = (Inr (extract_output [AIMessage (ContentString ''hello'')]),
             ?a\<lparr>chatHistory := chatHistory ?a
                  @ [HumanMessage (ContentString ''hi''),
                     AIMessage (ContentString (extract_output [AIMessage (ContentString ''hello'')]))]\<rparr>)"
    by (rule MainAgent_run_history_atomic
          [of ?a ?answers "''hi''", THEN conjunct2, THEN conjunct1, rule_format])
      (simp add: ag)
  from r1 u r2 show ?thesis
    by (simp add: h extract_output_def)
qed

text \<open>
  C10, as claimed: whenever the final message of the result is not an assistant message,
  \<^verbatim>\<open>run\<close> returns the empty string. It does not: a final message of another kind with
  a string content gives that string. Here the result ends with a tool message whose
  content is \<^verbatim>\<open>42\<close>.
\<close>

theorem MainAgent_run_non_assistant_string_counterexample:
  "fst (MainAgent_run (\<lambda>ag ms. Inr [ToolMessage (ContentString ''42'')])
          (MainAgent_initialize MainAgent_new) ''hi'') = Inr ''42''
   \<and> fst (MainAgent_run (\<lambda>ag ms. Inr [ToolMessage (ContentString ''42'')])
          (MainAgent_initialize MainAgent_new) ''hi'') \<noteq> Inr []"
  by (simp add: MainAgent_run_def MainAgent_initialize_def MainAgent_new_def buildExecutor_def
      extract_output_def Let_def)

text \<open>
  C10, amended. Every \<^verbatim>\<open>run\<close> that returns has appended exactly two messages, the user
  input and then the returned output as the assistant's, and changed nothing else. The
  output is the empty string, and is appended as such, when the result has no message,
  when its final message is an assistant message whose content is an array without any
  text (no string block, no block with a \<^verbatim>\<open>text\<close>, or only empty ones), and when its
  final message is not an assistant message and its content is not a string. A final
  message that is not an assistant message but has a string content yields that string.
  A final assistant message yields its string content, or the joined text of its blocks.
\<close>

theorem MainAgent_run_appends_pair:
  "(\<forall>out. fst (MainAgent_run invoke a input) = Inr out \<longrightarrow>
       snd (MainAgent_run invoke a input)
         = a\<lparr>chatHistory := chatHistory a
                @ [HumanMessage (ContentString input), AIMessage (ContentString out)]\<rparr>
       \<and> length (chatHistory (snd (MainAgent_run invoke a input))) = length (chatHistory a) + 2)
   \<and> (\<forall>ag ms. agent a = Some ag
        \<and> invoke ag (SystemMessage (ContentString SYSTEM_PROMPT) # chatHistory a
                     @ [HumanMessage (ContentString input)]) = Inr ms
        \<and> (ms = []
            \<or> (\<exists>blocks. last ms = AIMessage (ContentArray blocks)
                  \<and> (\<forall>b \<in> set blocks. block_text b = []))
            \<or> ((\<forall>c. last ms \<noteq> AIMessage c) \<and> (\<exists>blocks. message_content_of (last ms) = ContentArray blocks)))
        \<longrightarrow> MainAgent_run invoke a input
              = (Inr [],
                 a\<lparr>chatHistory := chatHistory a
                      @ [HumanMessage (ContentString input), AIMessage (ContentString [])]\<rparr>))
   \<and> (\<forall>ag ms s. agent a = Some ag
        \<and> invoke ag (SystemMessage (ContentString SYSTEM_PROMPT) # chatHistory a
                     @ [HumanMessage (ContentString input)]) = Inr ms
        \<and> ms \<noteq> [] \<and> (\<forall>c. last ms \<noteq> AIMessage c)
        \<and> message_content_of (last ms) = ContentString s
        \<longrightarrow> MainAgent_run invoke a input
              = (Inr s,
                 a\<lparr>chatHistory := chatHistory a
                      @ [HumanMessage (ContentString input), AIMessage (ContentString s)]\<rparr>))
   \<and> (\<forall>ag ms s. agent a = Some ag
        \<and> invoke ag (SystemMessage (ContentString SYSTEM_PROMPT) # chatHistory a
                     @ [HumanMessage (ContentString input)]) = Inr ms
        \<and> ms \<noteq> [] \<and> last ms = AIMessage (ContentString s)
        \<longrightarrow> MainAgent_run invoke a input
              = (Inr s,
                 a\<lparr>chatHistory := chatHistory a
                      @ [HumanMessage (ContentString input), AIMessage (ContentString s)]\<rparr>))
   \<and> (\<forall>ag ms blocks. agent a = Some ag
        \<and> invoke ag (SystemMessage (ContentString SYSTEM_PROMPT) # chatHistory a
                     @ [HumanMessage (ContentString input)]) = Inr ms
        \<and> ms \<noteq> [] \<and> last ms = AIMessage (ContentArray blocks)
        \<longrightarrow> MainAgent_run invoke a input
              = (Inr (concat (map block_text blocks)),
                 a\<lparr>chatHistory := chatHistory a
                      @ [HumanMessage (ContentString input),
                         AIMessage (ContentString (concat (map block_text blocks)))]\<rparr>))"
proof -
  have pair: "\<forall>out. fst (MainAgent_run invoke a input) = Inr out \<longrightarrow>
       snd (MainAgent_run invoke a input)
         = a\<lparr>chatHistory := chatHistory a
                @ [HumanMessage (ContentString input), AIMessage (ContentString out)]\<rparr>
       \<and> length (chatHistory (snd (MainAgent_run invoke a input))) = length (chatHistory a) + 2"
    by (auto simp: MainAgent_run_def Let_def split: option.splits sum.splits)
  have empty: "extract_output ms = []"
    if "ms = []
        \<or> (\<exists>blocks. last ms = AIMessage (ContentArray blocks)
              \<and> (\<forall>b \<in> set blocks. block_text b = []))
        \<or> ((\<forall>c. last ms \<noteq> AIMessage c) \<and> (\<exists>blocks. message_content_of (last ms) = ContentArray blocks))"
    for ms
    using that
    by (cases "last ms") (auto simp: extract_output_def)
  have other: "extract_output ms = s"
    if "ms \<noteq> []" and "\<forall>c. last ms \<noteq> AIMessage c"
      and "message_content_of (last ms) = ContentString s"
    for ms s
    using that
    by (cases "last ms") (auto simp: extract_output_def)
  have ai_string: "extract_output ms = s"
    if "ms \<noteq> []" and "last ms = AIMessage (ContentString s)" for ms s
    using that by (simp add: extract_output_def)
  have ai_blocks: "extract_output ms = concat (map block_text blocks)"
    if "ms \<noteq> []" and "last ms = AIMessage (ContentArray blocks)" for ms blocks
    using that by (simp add: extract_output_def)
  have c2: "\<forall>ag ms. agent a = Some ag
        \<and> invoke ag (SystemMessage (ContentString SYSTEM_PROMPT) # chatHistory a
                     @ [HumanMessage (ContentString input)]) = Inr ms
        \<and> (ms = []
            \<or> (\<exists>blocks. last ms = AIMessage (ContentArray blocks)
                  \<and> (\<forall>b \<in> set blocks. block_text b = []))
            \<or> ((\<forall>c. last ms \<noteq> AIMessage c) \<and> (\<exists>blocks. message_content_of (last ms) = ContentArray blocks)))
        \<longrightarrow> MainAgent_run invoke a input
              = (Inr [],
                 a\<lparr>chatHistory := chatHistory a
                      @ [HumanMessage (ContentString input), AIMessage (ContentString [])]\<rparr>)"
    using empty MainAgent_run_success [of a _ invoke input] by metis
  have c3: "\<forall>ag ms s. agent a = Some ag
        \<and> invoke ag (SystemMessage (ContentString SYSTEM_PROMPT) # chatHistory a
                     @ [HumanMessage (ContentString input)]) = Inr ms
        \<and> ms \<noteq> [] \<and> (\<forall>c. last ms \<noteq> AIMessage c)
        \<and> message_content_of (last ms) = ContentString s
        \<longrightarrow> MainAgent_run invoke a input
              = (Inr s,
                 a\<lparr>chatHistory := chatHistory a
                      @ [HumanMessage (ContentString input), AIMessage (ContentString s)]\<rparr>)"
    using other MainAgent_run_success [of a _ invoke input] by metis
  have c4: "\<forall>ag ms s. agent a = Some ag
        \<and> invoke ag (SystemMessage (ContentString SYSTEM_PROMPT) # chatHistory a
                     @ [HumanMessage (ContentString input)]) = Inr ms
        \<and> ms \<noteq> [] \<and> last ms = AIMessage (ContentString s)
        \<longrightarrow> MainAgent_run invoke a input
              = (Inr s,
                 a\<lparr>chatHistory := chatHistory a
                      @ [HumanMessage (ContentString input), AIMessage (ContentString s)]\<rparr>)"
    using ai_string MainAgent_run_success [of a _ invoke input] by metis
  have c5: "\<forall>ag ms blocks. agent a = Some ag
        \<and> invoke ag (SystemMessage (ContentString SYSTEM_PROMPT) # chatHistory a
                     @ [HumanMessage (ContentString input)]) = Inr ms
        \<and> ms \<noteq> [] \<and> last ms = AIMessage (ContentArray blocks)
        \<longrightarrow> MainAgent_run invoke a input
              = (Inr (concat (map block_text blocks)),
                 a\<lparr>chatHistory := chatHistory a
                      @ [HumanMessage (ContentString input),
                         AIMessage (ContentString (concat (map block_text blocks)))]\<rparr>)"
    using ai_blocks MainAgent_run_success [of a _ invoke input] by metis
  show ?thesis
    by (rule conjI [OF pair conjI [OF c2 conjI [OF c3 conjI [OF c4 c5]]]])
qed

theorem MainAgent_run_appends_pair_witness:
  "MainAgent_run (\<lambda>ag ms. Inr [ToolMessage (ContentArray [BlockOther])])
       (MainAgent_initialize MainAgent_new) ''hi''
     = (Inr [],
        (MainAgent_initialize MainAgent_new)
          \<lparr>chatHistory := [HumanMessage (ContentString ''hi''), AIMessage (ContentString [])]\<rparr>)
   \<and> length (chatHistory (snd (MainAgent_run (\<lambda>ag ms. Inr [ToolMessage (ContentArray [BlockOther])])
       (MainAgent_initialize MainAgent_new) ''hi''))) = 2
   \<and> fst (MainAgent_run (\<lambda>ag ms. Inr [AIMessage (ContentArray [BlockOther, BlockText []])])
       (MainAgent_initialize MainAgent_new) ''hi'') = Inr []
   \<and> fst (MainAgent_run (\<lambda>ag ms. Inr []) (MainAgent_initialize MainAgent_new) ''hi'') = Inr []
   \<and> MainAgent_run (\<lambda>ag ms. Inr [ToolMessage (ContentString ''17 degrees'')])
       (MainAgent_initialize MainAgent_new) ''hi''
     = (Inr ''17 degrees'',
        (MainAgent_initialize MainAgent_new)
          \<lparr>chatHistory := [HumanMessage (ContentString ''hi''),
                           AIMessage (ContentString ''17 degrees'')]\<rparr>)
   \<and> fst (MainAgent_run (\<lambda>ag ms. Inr [HumanMessage (ContentString ''hi''),
                                       AIMessage (ContentString ''hello'')])
       (MainAgent_initialize MainAgent_new) ''hi'') = Inr ''hello''
   \<and> fst (MainAgent_run (\<lambda>ag ms. Inr [AIMessage (ContentArray
                                         [BlockString ''sun'', BlockOther, BlockText ''ny''])])
       (MainAgent_initialize MainAgent_new) ''hi'') = Inr ''sunny''"
proof -
  let ?a = "MainAgent_initialize MainAgent_new"
  let ?tool = "\<lambda>(ag :: react_agent) (ms :: message list).
                (Inr [ToolMessage (ContentArray [BlockOther])] :: js_error + message list)"
  let ?blocks = "\<lambda>(ag :: react_agent) (ms :: message list).
                (Inr [AIMessage (ContentArray [BlockOther, BlockText []])] :: js_error + message list)"
  let ?none = "\<lambda>(ag :: react_agent) (ms :: message list). (Inr [] :: js_error + message list)"
  let ?degrees = "\<lambda>(ag :: react_agent) (ms :: message list).
                (Inr [ToolMessage (ContentString ''17 degrees'')] :: js_error + message list)"
  let ?hello = "\<lambda>(ag :: react_agent) (ms :: message list).
                (Inr [HumanMessage (ContentString ''hi''), AIMessage (ContentString ''hello'')]
                   :: js_error + message list)"
  let ?sunny = "\<lambda>(ag :: react_agent) (ms :: message list).
                (Inr [AIMessage (ContentArray [BlockString ''sun'', BlockOther, BlockText ''ny''])]
                   :: js_error + message list)"
  have ag: "agent ?a = Some (createAgent [] 0)" and h: "chatHistory ?a = []"
    by (simp_all add: MainAgent_initialize_def MainAgent_new_def buildExecutor_def)
  let ?msgs = "SystemMessage (ContentString SYSTEM_PROMPT) # chatHistory ?a
                 @ [HumanMessage (ContentString ''hi'')]"
  let ?no_text = "\<lambda>ms. ms = []
         \<or> (\<exists>blocks. last ms = AIMessage (ContentArray blocks)
               \<and> (\<forall>b \<in> set blocks. block_text b = []))
         \<or> ((\<forall>c. last ms \<noteq> AIMessage c)
             \<and> (\<exists>blocks. message_content_of (last ms) = ContentArray blocks))"
  have p1: "agent ?a = Some (createAgent [] 0)
            \<and> ?tool (createAgent [] 0) ?msgs = Inr [ToolMessage (ContentArray [BlockOther])]
            \<and> ?no_text [ToolMessage (ContentArray [BlockOther])]"
    by (simp add: ag)
  have r1: "MainAgent_run ?tool ?a ''hi''
          = (Inr [], ?a\<lparr>chatHistory := chatHistory ?a
                @ [HumanMessage (ContentString ''hi''), AIMessage (ContentString [])]\<rparr>)"
    by (rule MainAgent_run_appends_pair
          [of ?tool ?a "''hi''", THEN conjunct2, THEN conjunct1, rule_format, OF p1])
  have f1: "fst (MainAgent_run ?tool ?a ''hi'') = Inr []"
    by (simp add: r1)
  have l: "length (chatHistory (snd (MainAgent_run ?tool ?a ''hi''))) = length (chatHistory ?a) + 2"
    by (rule MainAgent_run_appends_pair
          [of ?tool ?a "''hi''", THEN conjunct1, rule_format, OF f1, THEN conjunct2])
  have p2: "agent ?a = Some (createAgent [] 0)
            \<and> ?blocks (createAgent [] 0) ?msgs = Inr [AIMessage (ContentArray [BlockOther, BlockText []])]
            \<and> ?no_text [AIMessage (ContentArray [BlockOther, BlockText []])]"
    by (simp add: ag)
  have r2: "MainAgent_run ?blocks ?a ''hi''
          = (Inr [], ?a\<lparr>chatHistory := chatHistory ?a
                @ [HumanMessage (ContentString ''hi''), AIMessage (ContentString [])]\<rparr>)"
    by (rule MainAgent_run_appends_pair
          [of ?blocks ?a "''hi''", THEN conjunct2, THEN conjunct1, rule_format, OF p2])
  have p3: "agent ?a = Some (createAgent [] 0) \<and> ?none (createAgent [] 0) ?msgs = Inr [] \<and> ?no_text []"
    by (simp add: ag)
  have r3: "MainAgent_run ?none ?a ''hi''
          = (Inr [], ?a\<lparr>chatHistory := chatHistory ?a
                @ [HumanMessage (ContentString ''hi''), AIMessage (ContentString [])]\<rparr>)"
    by (rule MainAgent_run_appends_pair
          [of ?none ?a "''hi''", THEN conjunct2, THEN conjunct1, rule_format, OF p3])
  have p4: "agent ?a = Some (createAgent [] 0)
            \<and> ?degrees (createAgent [] 0) ?msgs = Inr [ToolMessage (ContentString ''17 degrees'')]
            \<and> [ToolMessage (ContentString ''17 degrees'')] \<noteq> []
            \<and> (\<forall>c. last [ToolMessage (ContentString ''17 degrees'')] \<noteq> AIMessage c)
            \<and> message_content_of (last [ToolMessage (ContentString ''17 degrees'')])
                = ContentString ''17 degrees''"
    by (simp add: ag)
  have r4: "MainAgent_run ?degrees ?a ''hi''
          = (Inr ''17 degrees'', ?a\<lparr>chatHistory := chatHistory ?a
                @ [HumanMessage (ContentString ''hi''), AIMessage (ContentString ''17 degrees'')]\<rparr>)"
    by (rule MainAgent_run_appends_pair
          [of ?degrees ?a "''hi''", THEN conjunct2, THEN conjunct2, THEN conjunct1,
           rule_format, OF p4])
  have p5: "agent ?a = Some (createAgent [] 0)
            \<and> ?hello (createAgent [] 0) ?msgs
                = Inr [HumanMessage (ContentString ''hi''), AIMessage (ContentString ''hello'')]
            \<and> [HumanMessage (ContentString ''hi''), AIMessage (ContentString ''hello'')] \<noteq> []
            \<and> last [HumanMessage (ContentString ''hi''), AIMessage (ContentString ''hello'')]
                = AIMessage (ContentString ''hello'')"
    by (simp add: ag)
  have r5: "MainAgent_run ?hello ?a ''hi''
          = (Inr ''hello'', ?a\<lparr>chatHistory := chatHistory ?a
                @ [HumanMessage (ContentString ''hi''), AIMessage (ContentString ''hello'')]\<rparr>)"
    by (rule MainAgent_run_appends_pair
          [of ?hello ?a "''hi''", THEN conjunct2, THEN conjunct2, THEN conjunct2, THEN conjunct1,
           rule_format, OF p5])
  have p6: "agent ?a = Some (createAgent [] 0)
            \<and> ?sunny (createAgent [] 0) ?msgs
                = Inr [AIMessage (ContentArray [BlockString ''sun'', BlockOther, BlockText ''ny''])]
            \<and> [AIMessage (ContentArray [BlockString ''sun'', BlockOther, BlockText ''ny''])] \<noteq> []
            \<and> last [AIMessage (ContentArray [BlockString ''sun'', BlockOther, BlockText ''ny''])]
                = AIMessage (ContentArray [BlockString ''sun'', BlockOther, BlockText ''ny''])"
    by (simp add: ag)
  have r6: "MainAgent_run ?sunny ?a ''hi''
          = (Inr (concat (map block_text [BlockString ''sun'', BlockOther, BlockText ''ny''])),
             ?a\<lparr>chatHistory := chatHistory ?a
                @ [HumanMessage (ContentString ''hi''),
                   AIMessage (ContentString
                     (concat (map block_text [BlockString ''sun'', BlockOther, BlockText ''ny''])))]\<rparr>)"
    by (rule MainAgent_run_appends_pair
          [of ?sunny ?a "''hi''", THEN conjunct2, THEN conjunct2, THEN conjunct2, THEN conjunct2,
           rule_format, OF p6])
  from r1 l r2 r3 r4 r5 r6 show ?thesis
    by (simp add: h)
qed

section \<open>ToolAgent: facts\<close>

lemma json_match_no_brace: "CHR ''{'' \<notin> set content \<Longrightarrow> json_match content = None"
proof -
  assume "CHR ''{'' \<notin> set content"
  then have dw: "dropWhile (\<lambda>c. c \<noteq> CHR ''{'') content = []"
    by (auto simp: dropWhile_eq_Nil_conv)
  show ?thesis unfolding json_match_def dw by simp
qed

lemma json_match_first_last:
  assumes "CHR ''{'' \<notin> set pre" and "CHR ''}'' \<notin> set post"
  shows "json_match (pre @ [CHR ''{''] @ mid @ [CHR ''}''] @ post) = Some ([CHR ''{''] @ mid @ [CHR ''}''])"
proof -
  have d: "dropWhile (\<lambda>c. c \<noteq> CHR ''{'') (pre @ [CHR ''{''] @ mid @ [CHR ''}''] @ post)
             = CHR ''{'' # (mid @ [CHR ''}''] @ post)"
    using assms(1) by (induction pre) auto
  have "dropWhile (\<lambda>c. c \<noteq> CHR ''}'') (rev post @ CHR ''}'' # rev mid) = CHR ''}'' # rev mid"
    using assms(2) by (induction post rule: rev_induct) auto
  then have r: "rev (dropWhile (\<lambda>c. c \<noteq> CHR ''}'') (rev (mid @ [CHR ''}''] @ post))) = mid @ [CHR ''}'']"
    by simp
  show ?thesis
    unfolding json_match_def d using r by simp
qed

lemma json_match_nonempty: "json_match content = Some m \<Longrightarrow> m \<noteq> []"
  by (auto simp: json_match_def split: list.splits if_splits)

lemma json_match_shape:
  assumes "json_match content = Some m"
  shows "hd m = CHR ''{'' \<and> last m = CHR ''}'' \<and> 2 \<le> length m"
proof -
  from assms obtain b rest where dw: "dropWhile (\<lambda>c. c \<noteq> CHR ''{'') content = b # rest"
    and mem: "CHR ''}'' \<in> set rest"
    and m: "m = b # rev (dropWhile (\<lambda>c. c \<noteq> CHR ''}'') (rev rest))"
    by (auto simp: json_match_def split: list.splits if_splits)
  have b: "b = CHR ''{''"
    using hd_dropWhile [of "\<lambda>c. c \<noteq> CHR ''{''" content] dw by simp
  from mem have ne: "dropWhile (\<lambda>c. c \<noteq> CHR ''}'') (rev rest) \<noteq> []"
    by (auto simp: dropWhile_eq_Nil_conv)
  then have "hd (dropWhile (\<lambda>c. c \<noteq> CHR ''}'') (rev rest)) = CHR ''}''"
    using hd_dropWhile [of "\<lambda>c. c \<noteq> CHR ''}''" "rev rest"] by simp
  with ne have "last (rev (dropWhile (\<lambda>c. c \<noteq> CHR ''}'') (rev rest))) = CHR ''}''"
    by (simp add: last_rev)
  with ne m b show ?thesis
    by (cases "dropWhile (\<lambda>c. c \<noteq> CHR ''}'') (rev rest)") auto
qed

lemma extractResponse_no_match:
  "json_match content = None \<Longrightarrow>
   extractResponse parse content
     = Inr \<lparr>res_skills = JArray [], res_reasoning = JString ''No JSON response''\<rparr>"
  by (simp add: extractResponse_def)

lemma extractResponse_parse_throws:
  "json_match content = Some m \<Longrightarrow> parse m = Inl e \<Longrightarrow> extractResponse parse content = Inl e"
  by (frule json_match_nonempty) (simp add: extractResponse_def)

lemma extractResponse_object:
  "json_match content = Some m \<Longrightarrow> parse m = Inr (JObject kvs) \<Longrightarrow>
   extractResponse parse content
     = Inr \<lparr>res_skills = or_default (Map_get kvs ''skills'') (JArray []),
            res_reasoning = or_default (Map_get kvs ''reasoning'') (JString ''n/a'')\<rparr>"
  by (frule json_match_nonempty) (simp add: extractResponse_def get_property_def)

lemma JSON_parse_example:
  \<open>JSON_parse ''{"skills":["weather"],"reasoning":"x"}''
     = Inr (JObject [(''skills'', JArray [JString ''weather'']), (''reasoning'', JString ''x'')])\<close>
  by (simp add: JSON_parse_def is_ws_def escape_char_def)

lemma json_match_example:
  \<open>json_match ''noise {"skills":["weather"],"reasoning":"x"}  trailing''
     = Some ''{"skills":["weather"],"reasoning":"x"}''\<close>
  by (simp add: json_match_def)

lemma ToolAgent_run_total: "\<exists>res. ToolAgent_run parse invoke r input = Inr res"
  by (simp add: ToolAgent_run_def split: sum.splits)

section \<open>Claims about the router\<close>

text \<open>
  C4. The parse step takes the text from the first \<^verbatim>\<open>{\<close> to the last \<^verbatim>\<open>}\<close> and
  hands it to the JSON decoder. When the decoder returns an object, a missing
  \<^verbatim>\<open>skills\<close> becomes the empty list and a missing \<^verbatim>\<open>reasoning\<close> becomes
  \<^verbatim>\<open>n/a\<close>, and a field that is present and truthy is returned as it is. The text
  \<^verbatim>\<open>noise {"skills":["weather"],"reasoning":"x"}  trailing\<close> yields the skills
  \<^verbatim>\<open>["weather"]\<close> and the reasoning \<^verbatim>\<open>x\<close>. A text without any \<^verbatim>\<open>{\<close> yields no
  skills and the reasoning \<^verbatim>\<open>No JSON response\<close>, whatever the decoder.
\<close>

theorem extractResponse_first_to_last_brace:
  \<open>(\<forall>pre mid post.
       content = pre @ [CHR ''{''] @ mid @ [CHR ''}''] @ post
       \<and> CHR ''{'' \<notin> set pre \<and> CHR ''}'' \<notin> set post
       \<longrightarrow> json_match content = Some ([CHR ''{''] @ mid @ [CHR ''}'']))
   \<and> (\<forall>m kvs.
        json_match content = Some m \<and> parse m = Inr (JObject kvs)
        \<longrightarrow> (\<exists>res. extractResponse parse content = Inr res
               \<and> (Map_get kvs ''skills'' = None \<longrightarrow> res_skills res = JArray [])
               \<and> (Map_get kvs ''reasoning'' = None \<longrightarrow> res_reasoning res = JString ''n/a'')
               \<and> (\<forall>v. Map_get kvs ''skills'' = Some v \<and> truthy v \<longrightarrow> res_skills res = v)
               \<and> (\<forall>v. Map_get kvs ''reasoning'' = Some v \<and> truthy v \<longrightarrow> res_reasoning res = v)))
   \<and> extractResponse JSON_parse ''noise {"skills":["weather"],"reasoning":"x"}  trailing''
       = Inr \<lparr>res_skills = JArray [JString ''weather''], res_reasoning = JString ''x''\<rparr>
   \<and> (CHR ''{'' \<notin> set content
        \<longrightarrow> extractResponse parse content
            = Inr \<lparr>res_skills = JArray [], res_reasoning = JString ''No JSON response''\<rparr>)\<close>
proof -
  have a: "\<forall>pre mid post.
       content = pre @ [CHR ''{''] @ mid @ [CHR ''}''] @ post
       \<and> CHR ''{'' \<notin> set pre \<and> CHR ''}'' \<notin> set post
       \<longrightarrow> json_match content = Some ([CHR ''{''] @ mid @ [CHR ''}''])"
    using json_match_first_last by blast
  have b: "\<forall>m kvs.
        json_match content = Some m \<and> parse m = Inr (JObject kvs)
        \<longrightarrow> (\<exists>res. extractResponse parse content = Inr res
               \<and> (Map_get kvs ''skills'' = None \<longrightarrow> res_skills res = JArray [])
               \<and> (Map_get kvs ''reasoning'' = None \<longrightarrow> res_reasoning res = JString ''n/a'')
               \<and> (\<forall>v. Map_get kvs ''skills'' = Some v \<and> truthy v \<longrightarrow> res_skills res = v)
               \<and> (\<forall>v. Map_get kvs ''reasoning'' = Some v \<and> truthy v \<longrightarrow> res_reasoning res = v))"
    by (auto simp: extractResponse_object or_default_def)
  have c: \<open>extractResponse JSON_parse ''noise {"skills":["weather"],"reasoning":"x"}  trailing''
       = Inr \<lparr>res_skills = JArray [JString ''weather''], res_reasoning = JString ''x''\<rparr>\<close>
    using extractResponse_object [where parse = JSON_parse, OF json_match_example JSON_parse_example]
    by (simp add: or_default_def Map_get_def)
  have d: "CHR ''{'' \<notin> set content
        \<longrightarrow> extractResponse parse content
            = Inr \<lparr>res_skills = JArray [], res_reasoning = JString ''No JSON response''\<rparr>"
    by (simp add: json_match_no_brace extractResponse_no_match)
  show ?thesis
    by (rule conjI [OF a conjI [OF b conjI [OF c d]]])
qed

theorem extractResponse_first_to_last_brace_witness:
  \<open>json_match ''noise {"skills":["weather"],"reasoning":"x"}  trailing''
     = Some ''{"skills":["weather"],"reasoning":"x"}''
   \<and> extractResponse JSON_parse ''hello, no skills needed''
       = Inr \<lparr>res_skills = JArray [], res_reasoning = JString ''No JSON response''\<rparr>
   \<and> extractResponse JSON_parse ''ok {"skills":["weather"]}''
       = Inr \<lparr>res_skills = JArray [JString ''weather''], res_reasoning = JString ''n/a''\<rparr>
   \<and> extractResponse JSON_parse ''{"reasoning":"small talk"} done''
       = Inr \<lparr>res_skills = JArray [], res_reasoning = JString ''small talk''\<rparr>\<close>
proof -
  note thm1 = extractResponse_first_to_last_brace
      [of \<open>''noise {"skills":["weather"],"reasoning":"x"}  trailing''\<close> JSON_parse]
  note thm2 = extractResponse_first_to_last_brace [of "''hello, no skills needed''" JSON_parse]
  note thm3 = extractResponse_first_to_last_brace [of \<open>''ok {"skills":["weather"]}''\<close> JSON_parse]
  have split: \<open>''noise {"skills":["weather"],"reasoning":"x"}  trailing''
      = ''noise '' @ [CHR ''{''] @ ''"skills":["weather"],"reasoning":"x"'' @ [CHR ''}''] @ ''  trailing''
      \<and> CHR ''{'' \<notin> set ''noise '' \<and> CHR ''}'' \<notin> set ''  trailing''\<close>
    by simp
  have m1: \<open>json_match ''noise {"skills":["weather"],"reasoning":"x"}  trailing''
     = Some ([CHR ''{''] @ ''"skills":["weather"],"reasoning":"x"'' @ [CHR ''}''])\<close>
    by (rule thm1 [THEN conjunct1, rule_format, OF split])
  have nb: "CHR ''{'' \<notin> set ''hello, no skills needed''"
    by simp
  have m2: \<open>extractResponse JSON_parse ''hello, no skills needed''
       = Inr \<lparr>res_skills = JArray [], res_reasoning = JString ''No JSON response''\<rparr>\<close>
    by (rule thm2 [THEN conjunct2, THEN conjunct2, THEN conjunct2, rule_format, OF nb])
  have jm: \<open>json_match ''ok {"skills":["weather"]}'' = Some ''{"skills":["weather"]}''
             \<and> JSON_parse ''{"skills":["weather"]}''
                 = Inr (JObject [(''skills'', JArray [JString ''weather''])])\<close>
    by (simp add: json_match_def JSON_parse_def is_ws_def escape_char_def)
  have sk: "Map_get [(''skills'', JArray [JString ''weather''])] ''skills'' = Some (JArray [JString ''weather''])
            \<and> truthy (JArray [JString ''weather''])"
    and rs: "Map_get [(''skills'', JArray [JString ''weather''])] ''reasoning'' = None"
    by (simp_all add: Map_get_def)
  from thm3 [THEN conjunct2, THEN conjunct1, rule_format, OF jm]
  obtain res where r:
    \<open>extractResponse JSON_parse ''ok {"skills":["weather"]}'' = Inr res
     \<and> (Map_get [(''skills'', JArray [JString ''weather''])] ''skills'' = None
            \<longrightarrow> res_skills res = JArray [])
     \<and> (Map_get [(''skills'', JArray [JString ''weather''])] ''reasoning'' = None
            \<longrightarrow> res_reasoning res = JString ''n/a'')
     \<and> (\<forall>v. Map_get [(''skills'', JArray [JString ''weather''])] ''skills'' = Some v \<and> truthy v
            \<longrightarrow> res_skills res = v)
     \<and> (\<forall>v. Map_get [(''skills'', JArray [JString ''weather''])] ''reasoning'' = Some v \<and> truthy v
            \<longrightarrow> res_reasoning res = v)\<close> ..
  note res = r [THEN conjunct1]
  have "res_reasoning res = JString ''n/a''"
    by (rule r [THEN conjunct2, THEN conjunct2, THEN conjunct1, rule_format, OF rs])
  moreover have "res_skills res = JArray [JString ''weather'']"
    by (rule r [THEN conjunct2, THEN conjunct2, THEN conjunct2, THEN conjunct1, rule_format, OF sk])
  ultimately have "res = \<lparr>res_skills = JArray [JString ''weather''], res_reasoning = JString ''n/a''\<rparr>"
    by (cases res) simp
  with res have m3: \<open>extractResponse JSON_parse ''ok {"skills":["weather"]}''
       = Inr \<lparr>res_skills = JArray [JString ''weather''], res_reasoning = JString ''n/a''\<rparr>\<close>
    by (simp only:)
  from m1 have m1': \<open>json_match ''noise {"skills":["weather"],"reasoning":"x"}  trailing''
     = Some ''{"skills":["weather"],"reasoning":"x"}''\<close>
    by (simp only: append_Cons append_Nil)
  note thm4 = extractResponse_first_to_last_brace
      [of \<open>''{"reasoning":"small talk"} done''\<close> JSON_parse]
  have jm4: \<open>json_match ''{"reasoning":"small talk"} done'' = Some ''{"reasoning":"small talk"}''
             \<and> JSON_parse ''{"reasoning":"small talk"}''
                 = Inr (JObject [(''reasoning'', JString ''small talk'')])\<close>
    by (simp add: json_match_def JSON_parse_def is_ws_def escape_char_def)
  have rs4: "Map_get [(''reasoning'', JString ''small talk'')] ''reasoning'' = Some (JString ''small talk'')
            \<and> truthy (JString ''small talk'')"
    and sk4: "Map_get [(''reasoning'', JString ''small talk'')] ''skills'' = None"
    by (simp_all add: Map_get_def)
  from thm4 [THEN conjunct2, THEN conjunct1, rule_format, OF jm4]
  obtain res4 where r4:
    \<open>extractResponse JSON_parse ''{"reasoning":"small talk"} done'' = Inr res4
     \<and> (Map_get [(''reasoning'', JString ''small talk'')] ''skills'' = None
            \<longrightarrow> res_skills res4 = JArray [])
     \<and> (Map_get [(''reasoning'', JString ''small talk'')] ''reasoning'' = None
            \<longrightarrow> res_reasoning res4 = JString ''n/a'')
     \<and> (\<forall>v. Map_get [(''reasoning'', JString ''small talk'')] ''skills'' = Some v \<and> truthy v
            \<longrightarrow> res_skills res4 = v)
     \<and> (\<forall>v. Map_get [(''reasoning'', JString ''small talk'')] ''reasoning'' = Some v \<and> truthy v
            \<longrightarrow> res_reasoning res4 = v)\<close> ..
  have "res_skills res4 = JArray []"
    by (rule r4 [THEN conjunct2, THEN conjunct1, rule_format, OF sk4])
  moreover have "res_reasoning res4 = JString ''small talk''"
    by (rule r4 [THEN conjunct2, THEN conjunct2, THEN conjunct2, THEN conjunct2, rule_format, OF rs4])
  ultimately have "res4 = \<lparr>res_skills = JArray [], res_reasoning = JString ''small talk''\<rparr>"
    by (cases res4) simp
  with r4 [THEN conjunct1] have m4: \<open>extractResponse JSON_parse ''{"reasoning":"small talk"} done''
       = Inr \<lparr>res_skills = JArray [], res_reasoning = JString ''small talk''\<rparr>\<close>
    by (simp only:)
  show ?thesis
    by (rule conjI [OF m1' conjI [OF m2 conjI [OF m3 m4]]])
qed

text \<open>
  C5. \<^verbatim>\<open>ToolAgent.run\<close> never throws: for every decoder, model and input it returns a
  result. When the model call throws, when the response content is not a string, and
  when the matched text fails to decode, the result has no skills and the reasoning
  \<^verbatim>\<open>Error during routing\<close>; when the response has no match, it has no skills and the
  reasoning \<^verbatim>\<open>No JSON response\<close>. Given a result without skills, the orchestrator's
  \<^verbatim>\<open>handleToolsLoading\<close> loads nothing, asks for no rebuild and does not throw.
\<close>

theorem ToolAgent_run_absorbs_failure:
  "(\<exists>res. ToolAgent_run parse invoke r input = Inr res)
   \<and> (\<forall>e. invoke (buildSkillsList r) input = Inl e
        \<longrightarrow> ToolAgent_run parse invoke r input
            = Inr \<lparr>res_skills = JArray [], res_reasoning = JString ''Error during routing''\<rparr>)
   \<and> (\<forall>blocks. invoke (buildSkillsList r) input = Inr (ComplexContent blocks)
        \<longrightarrow> ToolAgent_run parse invoke r input
            = Inr \<lparr>res_skills = JArray [], res_reasoning = JString ''Error during routing''\<rparr>)
   \<and> (\<forall>c. invoke (buildSkillsList r) input = Inr (TextContent c) \<and> json_match c = None
        \<longrightarrow> ToolAgent_run parse invoke r input
            = Inr \<lparr>res_skills = JArray [], res_reasoning = JString ''No JSON response''\<rparr>)
   \<and> (\<forall>c m e. invoke (buildSkillsList r) input = Inr (TextContent c)
               \<and> json_match c = Some m \<and> parse m = Inl e
        \<longrightarrow> ToolAgent_run parse invoke r input
            = Inr \<lparr>res_skills = JArray [], res_reasoning = JString ''Error during routing''\<rparr>)
   \<and> (\<forall>orch reasoning.
        handleToolsLoading orch \<lparr>res_skills = JArray [], res_reasoning = reasoning\<rparr>
          = (Inr False, orch))"
proof -
  have a: "\<exists>res. ToolAgent_run parse invoke r input = Inr res"
    by (rule ToolAgent_run_total)
  have b: "\<forall>e. invoke (buildSkillsList r) input = Inl e
        \<longrightarrow> ToolAgent_run parse invoke r input
            = Inr \<lparr>res_skills = JArray [], res_reasoning = JString ''Error during routing''\<rparr>"
    by (simp add: ToolAgent_run_def ToolAgent_run_try_def)
  have c: "\<forall>blocks. invoke (buildSkillsList r) input = Inr (ComplexContent blocks)
        \<longrightarrow> ToolAgent_run parse invoke r input
            = Inr \<lparr>res_skills = JArray [], res_reasoning = JString ''Error during routing''\<rparr>"
    by (simp add: ToolAgent_run_def ToolAgent_run_try_def)
  have d: "\<forall>c. invoke (buildSkillsList r) input = Inr (TextContent c) \<and> json_match c = None
        \<longrightarrow> ToolAgent_run parse invoke r input
            = Inr \<lparr>res_skills = JArray [], res_reasoning = JString ''No JSON response''\<rparr>"
    by (simp add: ToolAgent_run_def ToolAgent_run_try_def extractResponse_no_match)
  have e: "\<forall>c m e. invoke (buildSkillsList r) input = Inr (TextContent c)
               \<and> json_match c = Some m \<and> parse m = Inl e
        \<longrightarrow> ToolAgent_run parse invoke r input
            = Inr \<lparr>res_skills = JArray [], res_reasoning = JString ''Error during routing''\<rparr>"
    by (auto simp: ToolAgent_run_def ToolAgent_run_try_def extractResponse_parse_throws)
  have f: "\<forall>orch reasoning.
        handleToolsLoading orch \<lparr>res_skills = JArray [], res_reasoning = reasoning\<rparr>
          = (Inr False, orch)"
    by (simp add: handleToolsLoading_def length_truthy_def)
  show ?thesis
    by (rule conjI [OF a conjI [OF b conjI [OF c conjI [OF d conjI [OF e f]]]]])
qed

theorem ToolAgent_run_absorbs_failure_witness:
  \<open>ToolAgent_run JSON_parse (\<lambda>skillsList input. Inl (Error ''network down'')) SkillsRegistry_new ''hi''
     = Inr \<lparr>res_skills = JArray [], res_reasoning = JString ''Error during routing''\<rparr>
   \<and> ToolAgent_run JSON_parse (\<lambda>skillsList input. Inr (TextContent ''I cannot answer''))
        SkillsRegistry_new ''hi''
     = Inr \<lparr>res_skills = JArray [], res_reasoning = JString ''No JSON response''\<rparr>
   \<and> ToolAgent_run JSON_parse (\<lambda>skillsList input. Inr (TextContent ''{"skills": [weather]}''))
        SkillsRegistry_new ''hi''
     = Inr \<lparr>res_skills = JArray [], res_reasoning = JString ''Error during routing''\<rparr>
   \<and> ToolAgent_run JSON_parse (\<lambda>skillsList input. Inr (ComplexContent [BlockText ''{"skills":[]}'']))
        SkillsRegistry_new ''hi''
     = Inr \<lparr>res_skills = JArray [], res_reasoning = JString ''Error during routing''\<rparr>\<close>
proof -
  have jm1: "json_match ''I cannot answer'' = None"
    by (simp add: json_match_def)
  have jm2: \<open>json_match ''{"skills": [weather]}'' = Some ''{"skills": [weather]}''\<close>
    by (simp add: json_match_def)
  have jp: \<open>JSON_parse ''{"skills": [weather]}'' = Inl json_syntax_error\<close>
    by (simp add: JSON_parse_def is_ws_def escape_char_def parse_number_def is_digit_def)
  show ?thesis
    using ToolAgent_run_absorbs_failure
        [of JSON_parse "\<lambda>skillsList input. Inl (Error ''network down'')" SkillsRegistry_new "''hi''"]
      ToolAgent_run_absorbs_failure
        [of JSON_parse "\<lambda>skillsList input. Inr (TextContent ''I cannot answer'')"
          SkillsRegistry_new "''hi''"]
      ToolAgent_run_absorbs_failure
        [of JSON_parse \<open>\<lambda>skillsList input. Inr (TextContent ''{"skills": [weather]}'')\<close>
          SkillsRegistry_new "''hi''"]
      ToolAgent_run_absorbs_failure
        [of JSON_parse \<open>\<lambda>skillsList input. Inr (ComplexContent [BlockText ''{"skills":[]}''])\<close>
          SkillsRegistry_new "''hi''"]
      jm1 jm2 jp
    by simp
qed

section \<open>Orchestrator: facts\<close>

lemma Orchestrator_run_uninitialized:
  assumes "toolAgent orch = None \<or> chatAgent orch = None"
  shows "Orchestrator_run parse route invoke orch input
           = (Inl (Error ''Orchestrator not initialized. Call initialize() first.''), orch)"
  using assms by (auto simp: Orchestrator_run_def split: option.splits)

lemma Orchestrator_clearHistory_uninitialized:
  "chatAgent orch = None \<Longrightarrow> Orchestrator_clearHistory orch = (Inr (), orch)"
  by (simp add: Orchestrator_clearHistory_def)

lemma Orchestrator_clearHistory_returns: "fst (Orchestrator_clearHistory orch) = Inr ()"
  by (simp add: Orchestrator_clearHistory_def split: option.splits)

text \<open>
  What \<^verbatim>\<open>clearHistory\<close> does on an initialised orchestrator: history, accumulator and
  loaded set are emptied, and the agent is rebuilt on the tool set it already had.
\<close>

lemma Orchestrator_clearHistory_effect:
  assumes "chatAgent orch = Some ca"
  shows "\<exists>ca'. chatAgent (snd (Orchestrator_clearHistory orch)) = Some ca'
           \<and> chatHistory ca' = [] \<and> tools ca' = tools ca
           \<and> agent ca' = Some (createAgent (tools ca) (created ca))
           \<and> orch_tools (snd (Orchestrator_clearHistory orch)) = []
           \<and> getLoadedSkills (snd (Orchestrator_clearHistory orch)) = []"
  using assms
  by (simp add: Orchestrator_clearHistory_def MainAgent_clearHistory_def buildExecutor_def
      getLoadedSkills_def getLoadedSkillNames_def resetLoadedSkills_def)

lemma Orchestrator_initialize_failure:
  assumes "fst (Orchestrator_initialize orch) = Inl e"
  shows "toolAgent (snd (Orchestrator_initialize orch)) = toolAgent orch
         \<and> chatAgent (snd (Orchestrator_initialize orch)) = chatAgent orch"
  using assms
  by (auto simp: Orchestrator_initialize_def split: prod.splits sum.splits if_splits)

lemma Orchestrator_new_uninitialized:
  "toolAgent Orchestrator_new = None \<and> chatAgent Orchestrator_new = None"
  by (simp add: Orchestrator_new_def)

section \<open>Claims about the orchestrator\<close>

text \<open>
  C1. \<^verbatim>\<open>clearHistory\<close> is claimed to empty the tool set of the conversational agent.
  It calls \<^verbatim>\<open>buildExecutor([])\<close>, which skips the merge for an empty list and keeps the
  stored tools. Here a new orchestrator is initialised, runs one turn for which the router
  answers \<^verbatim>\<open>{"skills":["weather"],"reasoning":"forecast"}\<close>, and is cleared: the history,
  the accumulator and the loaded set are empty, the agent still holds both weather tools
  and its executable context is bound to them.
\<close>

theorem Orchestrator_clearHistory_keeps_agent_tools:
  \<open>map_option (\<lambda>ca. map tool_name (tools ca))
     (chatAgent (snd (Orchestrator_clearHistory
        (snd (Orchestrator_run JSON_parse
               (\<lambda>skillsList input. Inr (TextContent ''{"skills":["weather"],"reasoning":"forecast"}''))
               (\<lambda>ag ms. Inr [AIMessage (ContentString ''sunny'')])
               (snd (Orchestrator_initialize Orchestrator_new)) ''weather in Paris?'')))))
     = Some [''get_weather'', ''get_forecast'']
   \<and> map_option (\<lambda>ca. map_option (\<lambda>ag. map tool_name (agent_tools ag)) (agent ca))
     (chatAgent (snd (Orchestrator_clearHistory
        (snd (Orchestrator_run JSON_parse
               (\<lambda>skillsList input. Inr (TextContent ''{"skills":["weather"],"reasoning":"forecast"}''))
               (\<lambda>ag ms. Inr [AIMessage (ContentString ''sunny'')])
               (snd (Orchestrator_initialize Orchestrator_new)) ''weather in Paris?'')))))
     = Some (Some [''get_weather'', ''get_forecast''])
   \<and> map_option chatHistory
     (chatAgent (snd (Orchestrator_clearHistory
        (snd (Orchestrator_run JSON_parse
               (\<lambda>skillsList input. Inr (TextContent ''{"skills":["weather"],"reasoning":"forecast"}''))
               (\<lambda>ag ms. Inr [AIMessage (ContentString ''sunny'')])
               (snd (Orchestrator_initialize Orchestrator_new)) ''weather in Paris?'')))))
     = Some []
   \<and> getLoadedSkills (snd (Orchestrator_clearHistory
        (snd (Orchestrator_run JSON_parse
               (\<lambda>skillsList input. Inr (TextContent ''{"skills":["weather"],"reasoning":"forecast"}''))
               (\<lambda>ag ms. Inr [AIMessage (ContentString ''sunny'')])
               (snd (Orchestrator_initialize Orchestrator_new)) ''weather in Paris?''))))
     = []
   \<and> getLoadedSkills
        (snd (Orchestrator_run JSON_parse
               (\<lambda>skillsList input. Inr (TextContent ''{"skills":["weather"],"reasoning":"forecast"}''))
               (\<lambda>ag ms. Inr [AIMessage (ContentString ''sunny'')])
               (snd (Orchestrator_initialize Orchestrator_new)) ''weather in Paris?''))
     = [''weather'']\<close>
  by code_simp

text \<open>
  C7, as claimed: \<^verbatim>\<open>clearHistory\<close> before \<^verbatim>\<open>initialize\<close> fails. It does not: on a
  new orchestrator, which has neither agent, it returns without an error and leaves the
  orchestrator as it was.
\<close>

theorem Orchestrator_clearHistory_uninitialized_counterexample:
  "toolAgent Orchestrator_new = None \<and> chatAgent Orchestrator_new = None
   \<and> Orchestrator_clearHistory Orchestrator_new = (Inr (), Orchestrator_new)"
  by (simp add: Orchestrator_clearHistory_def Orchestrator_new_def)

text \<open>
  C7, amended. A new orchestrator has neither agent, and an \<^verbatim>\<open>initialize\<close> that throws
  sets neither. While the tool agent or the chat agent is missing, \<^verbatim>\<open>run\<close> throws the
  error \<^verbatim>\<open>Orchestrator not initialized. Call initialize() first.\<close> and changes nothing:
  no routing, no loading, no model call. While the chat agent is missing,
  \<^verbatim>\<open>clearHistory\<close> returns without an error and changes nothing.
\<close>

theorem Orchestrator_not_initialized:
  "toolAgent Orchestrator_new = None \<and> chatAgent Orchestrator_new = None
   \<and> (\<forall>e. fst (Orchestrator_initialize orch) = Inl e \<longrightarrow>
          toolAgent (snd (Orchestrator_initialize orch)) = toolAgent orch
          \<and> chatAgent (snd (Orchestrator_initialize orch)) = chatAgent orch)
   \<and> (toolAgent orch = None \<or> chatAgent orch = None \<longrightarrow>
        Orchestrator_run parse route invoke orch input
          = (Inl (Error ''Orchestrator not initialized. Call initialize() first.''), orch))
   \<and> (chatAgent orch = None \<longrightarrow> Orchestrator_clearHistory orch = (Inr (), orch))"
  using Orchestrator_new_uninitialized Orchestrator_initialize_failure [of orch]
    Orchestrator_run_uninitialized [of orch parse route invoke input]
    Orchestrator_clearHistory_uninitialized [of orch]
  by blast

theorem Orchestrator_not_initialized_witness:
  "Orchestrator_run JSON_parse (\<lambda>skillsList input. Inr (TextContent ''{}''))
       (\<lambda>ag ms. Inr [AIMessage (ContentString ''hello'')]) Orchestrator_new ''hi''
     = (Inl (Error ''Orchestrator not initialized. Call initialize() first.''), Orchestrator_new)
   \<and> Orchestrator_clearHistory Orchestrator_new = (Inr (), Orchestrator_new)
   \<and> fst (Orchestrator_initialize (Orchestrator_new\<lparr>registry := SkillsRegistry_new\<rparr>))
       = Inl (Error ''No skills registered.'')
   \<and> toolAgent (snd (Orchestrator_initialize (Orchestrator_new\<lparr>registry := SkillsRegistry_new\<rparr>)))
       = None
   \<and> chatAgent (snd (Orchestrator_initialize (Orchestrator_new\<lparr>registry := SkillsRegistry_new\<rparr>)))
       = None"
proof -
  have h: "toolAgent Orchestrator_new = None \<or> chatAgent Orchestrator_new = None"
    and h': "chatAgent Orchestrator_new = None"
    by (simp_all add: Orchestrator_new_def)
  note inst = Orchestrator_not_initialized
      [of Orchestrator_new JSON_parse "\<lambda>skillsList input. Inr (TextContent ''{}'')"
        "\<lambda>ag ms. Inr [AIMessage (ContentString ''hello'')]" "''hi''"]
  have "Orchestrator_run JSON_parse (\<lambda>skillsList input. Inr (TextContent ''{}''))
       (\<lambda>ag ms. Inr [AIMessage (ContentString ''hello'')]) Orchestrator_new ''hi''
     = (Inl (Error ''Orchestrator not initialized. Call initialize() first.''), Orchestrator_new)"
    by (rule inst [THEN conjunct2, THEN conjunct2, THEN conjunct2, THEN conjunct1, rule_format, OF h])
  moreover have "Orchestrator_clearHistory Orchestrator_new = (Inr (), Orchestrator_new)"
    by (rule inst [THEN conjunct2, THEN conjunct2, THEN conjunct2, THEN conjunct2, rule_format, OF h'])
  moreover
  let ?empty = "Orchestrator_new\<lparr>registry := SkillsRegistry_new\<rparr>"
  have f: "fst (Orchestrator_initialize ?empty) = Inl (Error ''No skills registered.'')"
    by (simp add: Orchestrator_initialize_def SkillsRegistry_new_def initializeAll_def
        Map_keys_def getNames_def)
  have "toolAgent (snd (Orchestrator_initialize ?empty)) = toolAgent ?empty
        \<and> chatAgent (snd (Orchestrator_initialize ?empty)) = chatAgent ?empty"
    by (rule Orchestrator_not_initialized
          [of ?empty JSON_parse "\<lambda>skillsList input. Inr (TextContent ''{}'')"
            "\<lambda>ag ms. Inr [AIMessage (ContentString ''hello'')]" "''hi''",
           THEN conjunct2, THEN conjunct2, THEN conjunct1, rule_format, OF f])
  then have "toolAgent (snd (Orchestrator_initialize ?empty)) = None
        \<and> chatAgent (snd (Orchestrator_initialize ?empty)) = None"
    by (simp add: Orchestrator_new_def)
  ultimately show ?thesis using f by simp
qed

end
